theory Spec2Isabelle
  imports Complex_Main
begin

section \<open>Process: the structural checks of \<open>process/base.py\<close>\<close>

text \<open>
  Exceptions of \<open>process/base.py\<close> are values. \<open>ValueError\<close> and \<open>TypeError\<close> carry the
  message the source builds; \<open>DuplicateAssignmentError\<close> is raised by the design-matrix
  classes, whose code is outside the two source files.
\<close>

datatype exn =
    ValueError string
  | TypeError string
  | DuplicateAssignmentError string string

subsection \<open>Subclass definition: \<open>__init_subclass__\<close> and \<open>batch_kwargs\<close>\<close>

text \<open>
  \<open>inspect.signature(method).parameters\<close> is an ordered mapping from parameter names to
  parameters; iterating it yields the names in declaration order. A method is its code
  object (compared by \<open>__code__ != ...\<close>) together with that parameter list.
\<close>

datatype param_kind = POSITIONAL_OR_KEYWORD | VAR_POSITIONAL | KEYWORD_ONLY | VAR_KEYWORD

record py_method =
  code :: string
  parameters :: "(string \<times> param_kind) list"

text \<open>The three methods of \<open>Process\<close> itself that \<open>__init_subclass__\<close> compares against.\<close>

definition Process_for_batch :: py_method where
  "Process_for_batch =
     \<lparr>code = ''Process.for_batch'',
      parameters = [(''self'', POSITIONAL_OR_KEYWORD), (''num_groups'', POSITIONAL_OR_KEYWORD),
                    (''num_timesteps'', POSITIONAL_OR_KEYWORD), (''kwargs'', VAR_KEYWORD)]\<rparr>"

definition Process_initial_state_means_for_batch :: py_method where
  "Process_initial_state_means_for_batch =
     \<lparr>code = ''Process.initial_state_means_for_batch'',
      parameters = [(''self'', POSITIONAL_OR_KEYWORD), (''parameters'', POSITIONAL_OR_KEYWORD),
                    (''num_groups'', POSITIONAL_OR_KEYWORD), (''kwargs'', VAR_KEYWORD)]\<rparr>"

definition Process_batch_kwargs :: py_method where
  "Process_batch_kwargs =
     \<lparr>code = ''Process.batch_kwargs'',
      parameters = [(''method'', POSITIONAL_OR_KEYWORD)]\<rparr>"

text \<open>
  A class, as far as \<open>__init_subclass__\<close> and \<open>__init__\<close> look at it: its name, the three
  methods as attribute lookup on the class resolves them (an inherited method is the
  method of \<open>Process\<close>), and the two properties a subclass may override, as functions of
  the instance's state elements.
\<close>

record process_class =
  cls_name :: string
  cls_for_batch :: py_method
  cls_initial_state_means_for_batch :: py_method
  cls_batch_kwargs :: py_method
  cls_dynamic_state_elements :: "string list \<Rightarrow> string list"
  cls_fixed_state_elements :: "string list \<Rightarrow> string list"

definition excluded :: "string list" where
  "excluded = [''self'', ''num_groups'', ''num_timesteps'', ''parameters'']"

text \<open>\<open>Process.batch_kwargs(method)\<close>: the parameter names that are not excluded, in order.\<close>

definition batch_kwargs :: "py_method \<Rightarrow> string list" where
  "batch_kwargs m = filter (\<lambda>kwarg. kwarg \<notin> set excluded) (map fst (parameters m))"

definition overrides_batch_kwargs :: "process_class \<Rightarrow> bool" where
  "overrides_batch_kwargs cls \<longleftrightarrow> code (cls_batch_kwargs cls) \<noteq> code Process_batch_kwargs"

definition overrides_for_batch :: "process_class \<Rightarrow> bool" where
  "overrides_for_batch cls \<longleftrightarrow> code (cls_for_batch cls) \<noteq> code Process_for_batch"

definition overrides_init_mean :: "process_class \<Rightarrow> bool" where
  "overrides_init_mean cls \<longleftrightarrow>
     code (cls_initial_state_means_for_batch cls) \<noteq> code Process_initial_state_means_for_batch"

text \<open>
  \<open>Process.__init_subclass__(cls)\<close>. The three checks run only when the subclass does not
  override \<open>batch_kwargs\<close>; the final \<open>super().__init_subclass__()\<close> is the no-op of
  \<open>object\<close>.
\<close>

definition init_subclass :: "process_class \<Rightarrow> exn + unit" where
  "init_subclass cls =
     (if \<not> overrides_batch_kwargs cls then
        (let batch_kwargs_set = set (batch_kwargs (cls_for_batch cls));
             init_mean_kwargs = set (batch_kwargs (cls_initial_state_means_for_batch cls))
         in if overrides_for_batch cls \<and> ''kwargs'' \<in> batch_kwargs_set then
              Inl (TypeError (''Signature of `'' @ cls_name cls @
                     ''.for_batch` must define its keyword args explicitly.''))
            else if overrides_init_mean cls \<and> ''kwargs'' \<in> init_mean_kwargs then
              Inl (TypeError (''Signature of `'' @ cls_name cls @
                     ''.initial_state_means_for_batch` must define kwargs explicitly.''))
            else if overrides_for_batch cls \<and> overrides_init_mean cls
                    \<and> batch_kwargs_set \<noteq> init_mean_kwargs then
              Inl (TypeError (''`'' @ cls_name cls @
                     ''.initial_state_means_for_batch()` must match signature of .for_batch()''))
            else Inr ())
      else Inr ())"

subsection \<open>Design matrices\<close>

text \<open>
  Modelled from the spec: the classes \<open>TransitionMatrix\<close>, \<open>MeasureMatrix\<close> and
  \<open>ProcessVarianceMultiplierMatrix\<close> (\<open>process/utils/design_matrix\<close>) are not among the
  source files. A design matrix is a mapping from (row-key, col-key) to a cell holding a
  constant or a parameter reference and an optional inverse link; a cell may be assigned
  at most once unless an overwrite is requested. The cells are kept in assignment
  order. \<open>for_batch\<close> yields a new matrix object for the batch shape and leaves the
  receiver as it is; the numeric tensor it holds is not modelled.
\<close>

datatype matrix_kind = TransitionMatrix | MeasureMatrix | ProcessVarianceMultiplierMatrix

datatype design_mat_assignment = Constant real | Parameter string

record cell =
  cell_value :: design_mat_assignment
  cell_ilink :: "string option"

record design_matrix =
  kind :: matrix_kind
  dim1_names :: "string list option"
  dim2_names :: "string list"
  cells :: "((string \<times> string) \<times> cell) list"
  mat_batch_info :: "(nat \<times> nat) option"

definition new_design_matrix ::
  "matrix_kind \<Rightarrow> string list option \<Rightarrow> string list \<Rightarrow> design_matrix" where
  "new_design_matrix k d1 d2 =
     \<lparr>kind = k, dim1_names = d1, dim2_names = d2, cells = [], mat_batch_info = None\<rparr>"

definition mat_assign ::
  "design_matrix \<Rightarrow> string \<Rightarrow> string \<Rightarrow> design_mat_assignment \<Rightarrow> bool \<Rightarrow> exn + design_matrix" where
  "mat_assign dm r c v overwrite =
     (if (r, c) \<in> set (map fst (cells dm)) \<and> \<not> overwrite then
        Inl (DuplicateAssignmentError r c)
      else
        Inr (dm\<lparr>cells := filter (\<lambda>kv. fst kv \<noteq> (r, c)) (cells dm)
                           @ [((r, c), \<lparr>cell_value = v, cell_ilink = None\<rparr>)]\<rparr>))"

definition mat_set_ilink ::
  "design_matrix \<Rightarrow> string \<Rightarrow> string \<Rightarrow> string option \<Rightarrow> bool \<Rightarrow> exn + design_matrix" where
  "mat_set_ilink dm r c ilink overwrite =
     Inr (dm\<lparr>cells := map (\<lambda>kv. if fst kv = (r, c) then (fst kv, (snd kv)\<lparr>cell_ilink := ilink\<rparr>)
                                else kv) (cells dm)\<rparr>)"

definition mat_measures :: "design_matrix \<Rightarrow> string list" where
  "mat_measures dm = remdups (map (\<lambda>kv. fst (fst kv)) (cells dm))"

definition mat_empty :: "design_matrix \<Rightarrow> bool" where
  "mat_empty dm \<longleftrightarrow> cells dm = []"

definition mat_for_batch :: "design_matrix \<Rightarrow> nat \<Rightarrow> nat \<Rightarrow> design_matrix" where
  "mat_for_batch dm num_groups num_timesteps = dm\<lparr>mat_batch_info := Some (num_groups, num_timesteps)\<rparr>"

subsection \<open>Process objects in a store\<close>

text \<open>
  \<open>for_batch\<close> copies the process shallowly and rebinds three attributes of the copy, and
  \<open>_set_measure\<close> and \<open>_set_transition\<close> mutate a matrix the process refers to. Objects
  therefore live in a store: a process holds references to its three matrices, and
  \<open>next_ref\<close> is the next unused address.
\<close>

type_synonym ref = nat

record process =
  proc_id :: string
  state_elements :: "string list"
  transition_mat :: ref
  measure_mat :: ref
  variance_multi_mat :: ref
  batch_info :: "(nat \<times> nat) option"

record store =
  processes :: "ref \<rightharpoonup> process"
  matrices :: "ref \<rightharpoonup> design_matrix"
  next_ref :: ref

definition alloc_matrix :: "store \<Rightarrow> design_matrix \<Rightarrow> ref \<times> store" where
  "alloc_matrix s dm =
     (next_ref s, s\<lparr>matrices := (matrices s)(next_ref s \<mapsto> dm), next_ref := Suc (next_ref s)\<rparr>)"

definition alloc_process :: "store \<Rightarrow> process \<Rightarrow> ref \<times> store" where
  "alloc_process s p =
     (next_ref s, s\<lparr>processes := (processes s)(next_ref s \<mapsto> p), next_ref := Suc (next_ref s)\<rparr>)"

text \<open>
  \<open>Process._validate\<close>, on the state elements and the two properties of the class.
  \<open>len(xs) != len(set(xs))\<close> compares the length with the number of distinct names.
\<close>

definition validate :: "process_class \<Rightarrow> string list \<Rightarrow> exn + unit" where
  "validate cls elems =
     (if length elems \<noteq> card (set elems) then
        Inl (ValueError ''Duplicate `state_elements`.'')
      else if \<not> (set (cls_dynamic_state_elements cls elems)
                    \<inter> set (cls_fixed_state_elements cls elems) = {}) then
        Inl (ValueError
          ''Class has been misconfigured: some fixed state-elements are also dynamic-state-elements.'')
      else Inr ())"

text \<open>
  \<open>Process.__init__(id, state_elements)\<close>: the three matrices are built first, the
  validation runs last; when it raises, no process object is returned.
\<close>

definition Process_init ::
  "process_class \<Rightarrow> store \<Rightarrow> string \<Rightarrow> string list \<Rightarrow> exn + (ref \<times> store)" where
  "Process_init cls s i elems =
     (let (t, s1) = alloc_matrix s (new_design_matrix TransitionMatrix (Some elems) elems);
          (m, s2) = alloc_matrix s1 (new_design_matrix MeasureMatrix None elems);
          (v, s3) = alloc_matrix s2 (new_design_matrix ProcessVarianceMultiplierMatrix
                                       (Some elems) (cls_dynamic_state_elements cls elems))
      in case validate cls elems of
           Inl e \<Rightarrow> Inl e
         | Inr u \<Rightarrow>
             Inr (alloc_process s3
                    \<lparr>proc_id = i, state_elements = elems, transition_mat = t, measure_mat = m,
                     variance_multi_mat = v, batch_info = None\<rparr>))"

text \<open>The class \<open>Process\<close> itself: every state element is dynamic, none is fixed.\<close>

definition Process :: process_class where
  "Process =
     \<lparr>cls_name = ''Process'', cls_for_batch = Process_for_batch,
      cls_initial_state_means_for_batch = Process_initial_state_means_for_batch,
      cls_batch_kwargs = Process_batch_kwargs,
      cls_dynamic_state_elements = (\<lambda>elems. elems),
      cls_fixed_state_elements = (\<lambda>elems. [])\<rparr>"

text \<open>
  \<open>Process.for_batch(num_groups, num_timesteps)\<close>. The keyword arguments are not read by
  the body. A reference that the store does not hold cannot occur in Python; the model
  returns \<open>None\<close> for it.
\<close>

definition for_batch :: "store \<Rightarrow> ref \<Rightarrow> nat \<Rightarrow> nat \<Rightarrow> (exn + (ref \<times> store)) option" where
  "for_batch s self num_groups num_timesteps =
     (case processes s self of
        None \<Rightarrow> None
      | Some p \<Rightarrow>
         (case (matrices s (measure_mat p), matrices s (transition_mat p),
                matrices s (variance_multi_mat p)) of
            (Some mm, Some tm, Some vm) \<Rightarrow>
              if mat_measures mm = [] then
                Some (Inl (TypeError (''The process `'' @ proc_id p @ ''` has no measures.'')))
              else if mat_empty tm then
                Some (Inl (TypeError (''The process `'' @ proc_id p @ ''` has no transitions.'')))
              else
                (let (fb, s1) = alloc_process s p;
                     p1 = p\<lparr>batch_info := Some (num_groups, num_timesteps)\<rparr>;
                     (v, s2) = alloc_matrix s1 (mat_for_batch vm num_groups num_timesteps);
                     p2 = p1\<lparr>variance_multi_mat := v\<rparr>;
                     (m, s3) = alloc_matrix s2 (mat_for_batch mm num_groups num_timesteps);
                     p3 = p2\<lparr>measure_mat := m\<rparr>;
                     (t, s4) = alloc_matrix s3 (mat_for_batch tm num_groups num_timesteps);
                     p4 = p3\<lparr>transition_mat := t\<rparr>
                 in Some (Inr (fb, s4\<lparr>processes := (processes s4)(fb \<mapsto> p4)\<rparr>)))
          | _ \<Rightarrow> None))"

text \<open>
  \<open>Process._set_measure\<close> and \<open>Process._set_transition\<close>: \<open>assign\<close>, then \<open>set_ilink\<close>, on
  the matrix object the process refers to, which is updated in place.
\<close>

definition set_measure ::
  "store \<Rightarrow> ref \<Rightarrow> string \<Rightarrow> string \<Rightarrow> design_mat_assignment \<Rightarrow> string option \<Rightarrow> bool
     \<Rightarrow> (exn + store) option" where
  "set_measure s self measure_name state_element v ilink force =
     (case processes s self of
        None \<Rightarrow> None
      | Some p \<Rightarrow>
         (case matrices s (measure_mat p) of
            None \<Rightarrow> None
          | Some mm \<Rightarrow>
             (case mat_assign mm measure_name state_element v force of
                Inl e \<Rightarrow> Some (Inl e)
              | Inr mm1 \<Rightarrow>
                 (case mat_set_ilink mm1 measure_name state_element ilink force of
                    Inl e \<Rightarrow> Some (Inl e)
                  | Inr mm2 \<Rightarrow> Some (Inr (s\<lparr>matrices := (matrices s)(measure_mat p \<mapsto> mm2)\<rparr>))))))"

definition set_transition ::
  "store \<Rightarrow> ref \<Rightarrow> string \<Rightarrow> string \<Rightarrow> design_mat_assignment \<Rightarrow> string option \<Rightarrow> bool
     \<Rightarrow> (exn + store) option" where
  "set_transition s self from_element to_element v ilink force =
     (case processes s self of
        None \<Rightarrow> None
      | Some p \<Rightarrow>
         (case matrices s (transition_mat p) of
            None \<Rightarrow> None
          | Some tm \<Rightarrow>
             (case mat_assign tm from_element to_element v force of
                Inl e \<Rightarrow> Some (Inl e)
              | Inr tm1 \<Rightarrow>
                 (case mat_set_ilink tm1 from_element to_element ilink force of
                    Inl e \<Rightarrow> Some (Inl e)
                  | Inr tm2 \<Rightarrow> Some (Inr (s\<lparr>matrices := (matrices s)(transition_mat p \<mapsto> tm2)\<rparr>))))))"

text \<open>
  Every address in use lies below \<open>next_ref\<close>: the invariant of the store that makes a newly
  allocated object distinct from every object already there.
\<close>

definition store_ok :: "store \<Rightarrow> bool" where
  "store_ok s \<longleftrightarrow> (\<forall>r. r \<in> dom (processes s) \<or> r \<in> dom (matrices s) \<longrightarrow> r < next_ref s)"

text \<open>
  What a successful \<open>for_batch\<close> returns, as two relations between the store before the
  call, the receiver, the store after the call and the reference returned. The first: the
  returned process has the id and the state elements of the receiver, the batch shape as
  \<open>batch_info\<close>, and its three matrices are the receiver's, each made \<open>for_batch\<close> with that
  shape. The second: the returned process is a new object, its three matrices are new
  objects, and every process and matrix that was in the store is as it was.
\<close>

definition batch_specialized :: "store \<Rightarrow> ref \<Rightarrow> nat \<Rightarrow> nat \<Rightarrow> store \<Rightarrow> ref \<Rightarrow> bool" where
  "batch_specialized s self g t s' fb \<longleftrightarrow>
     (\<exists>p p' tm mm vm.
        processes s self = Some p \<and> matrices s (transition_mat p) = Some tm \<and>
        matrices s (measure_mat p) = Some mm \<and> matrices s (variance_multi_mat p) = Some vm \<and>
        processes s' fb = Some p' \<and>
        proc_id p' = proc_id p \<and> state_elements p' = state_elements p \<and>
        batch_info p' = Some (g, t) \<and>
        matrices s' (transition_mat p') = Some (mat_for_batch tm g t) \<and>
        matrices s' (measure_mat p') = Some (mat_for_batch mm g t) \<and>
        matrices s' (variance_multi_mat p') = Some (mat_for_batch vm g t))"

definition copy_is_new :: "store \<Rightarrow> ref \<Rightarrow> store \<Rightarrow> ref \<Rightarrow> bool" where
  "copy_is_new s self s' fb \<longleftrightarrow>
     fb \<noteq> self \<and> processes s fb = None \<and>
     (\<forall>r. processes s r \<noteq> None \<longrightarrow> processes s' r = processes s r) \<and>
     (\<forall>r. matrices s r \<noteq> None \<longrightarrow> matrices s' r = matrices s r) \<and>
     (\<exists>p'. processes s' fb = Some p' \<and> matrices s (transition_mat p') = None \<and>
           matrices s (measure_mat p') = None \<and> matrices s (variance_multi_mat p') = None)"

subsection \<open>Example classes and processes\<close>

text \<open>
  A subclass whose fixed state elements contain \<open>velocity\<close>; a process \<open>level\<close> of the class
  \<open>Process\<close> as \<open>__init__\<close> leaves it in the empty store, the store after a measure is set,
  after a transition is set as well, and after \<open>for_batch(2, 5)\<close>.
\<close>

definition empty_store :: store where
  "empty_store = \<lparr>processes = Map.empty, matrices = Map.empty, next_ref = 0\<rparr>"

definition trend_class :: process_class where
  "trend_class = Process\<lparr>cls_name := ''Trend'', cls_fixed_state_elements := (\<lambda>elems. [''velocity''])\<rparr>"

definition level_process :: process where
  "level_process =
     \<lparr>proc_id = ''level'', state_elements = [''position''], transition_mat = 0, measure_mat = 1,
      variance_multi_mat = 2, batch_info = None\<rparr>"

definition level_store :: store where
  "level_store =
     \<lparr>processes = [3 \<mapsto> level_process],
      matrices = [0 \<mapsto> new_design_matrix TransitionMatrix (Some [''position'']) [''position''],
                  1 \<mapsto> new_design_matrix MeasureMatrix None [''position''],
                  2 \<mapsto> new_design_matrix ProcessVarianceMultiplierMatrix (Some [''position''])
                         [''position'']],
      next_ref = 4\<rparr>"

definition measured_matrix :: design_matrix where
  "measured_matrix =
     (new_design_matrix MeasureMatrix None [''position''])
       \<lparr>cells := [((''y'', ''position''), \<lparr>cell_value = Constant 1, cell_ilink = None\<rparr>)]\<rparr>"

definition transition_matrix :: design_matrix where
  "transition_matrix =
     (new_design_matrix TransitionMatrix (Some [''position'']) [''position''])
       \<lparr>cells := [((''position'', ''position''), \<lparr>cell_value = Constant 1, cell_ilink = None\<rparr>)]\<rparr>"

definition measured_store :: store where
  "measured_store = level_store\<lparr>matrices := (matrices level_store)(1 \<mapsto> measured_matrix)\<rparr>"

definition ready_store :: store where
  "ready_store = measured_store\<lparr>matrices := (matrices measured_store)(0 \<mapsto> transition_matrix)\<rparr>"

definition batch_store :: store where
  "batch_store =
     \<lparr>processes = (processes ready_store)(4 \<mapsto>
        level_process\<lparr>batch_info := Some (2, 5), variance_multi_mat := 5, measure_mat := 6,
          transition_mat := 7\<rparr>),
      matrices = (matrices ready_store)
        (5 \<mapsto> mat_for_batch (new_design_matrix ProcessVarianceMultiplierMatrix
                                 (Some [''position'']) [''position'']) 2 5,
         6 \<mapsto> mat_for_batch measured_matrix 2 5,
         7 \<mapsto> mat_for_batch transition_matrix 2 5),
      next_ref = 8\<rparr>"

text \<open>
  A subclass that overrides \<open>for_batch\<close> and \<open>initial_state_means_for_batch\<close> with
  different keyword arguments, and the same subclass with \<open>batch_kwargs\<close> overridden too.
\<close>

definition season_class :: process_class where
  "season_class =
     Process
       \<lparr>cls_name := ''Season'',
        cls_for_batch :=
          \<lparr>code = ''Season.for_batch'',
           parameters = [(''self'', POSITIONAL_OR_KEYWORD), (''num_groups'', POSITIONAL_OR_KEYWORD),
                         (''num_timesteps'', POSITIONAL_OR_KEYWORD),
                         (''start_datetimes'', POSITIONAL_OR_KEYWORD)]\<rparr>,
        cls_initial_state_means_for_batch :=
          \<lparr>code = ''Season.initial_state_means_for_batch'',
           parameters = [(''self'', POSITIONAL_OR_KEYWORD), (''parameters'', POSITIONAL_OR_KEYWORD),
                         (''num_groups'', POSITIONAL_OR_KEYWORD),
                         (''season_start'', POSITIONAL_OR_KEYWORD)]\<rparr>\<rparr>"

definition season_class_own_kwargs :: process_class where
  "season_class_own_kwargs =
     season_class
       \<lparr>cls_batch_kwargs :=
          \<lparr>code = ''Season.batch_kwargs'',
           parameters = [(''method'', POSITIONAL_OR_KEYWORD)]\<rparr>\<rparr>"

section \<open>The filter of \<open>kalman_filter.py\<close>\<close>

subsection \<open>Tensors, keyword arguments, exceptions\<close>

text \<open>
  The entries of the tensors are floating-point numbers in the source; the model takes
  real numbers, and \<open>None\<close> for a missing observation (NaN). The input of \<open>forward\<close> is a
  tensor with three dimensions: its \<open>shape\<close> is (groups, timesteps, measures).
\<close>

type_synonym vector = "real list"
type_synonym matrix = "real list list"
type_synonym observations = "real option list list"
type_synonym datetimes = "int list"

record tensor3 =
  shape :: "nat \<times> nat \<times> nat"
  entry :: "nat \<Rightarrow> nat \<Rightarrow> nat \<Rightarrow> real option"

text \<open>
  The keyword arguments: the three keys the filter itself reads or writes (\<open>input\<close>,
  \<open>progress\<close>, \<open>start_datetimes\<close>), and every other key, which is only handed on.
  \<open>progress\<close> is a boolean or absent; a wrapping callable is not modelled.
\<close>

record kwargs =
  kw_input :: "tensor3 option"
  kw_progress :: "bool option"
  kw_start_datetimes :: "datetimes option"
  kw_other :: "string \<rightharpoonup> tensor3"

text \<open>
  What the three methods raise themselves: the \<open>ValueError\<close> of \<open>forward\<close> (with the measure
  size and the input shape of its message), an \<open>IndexError\<close> of a subscript, the
  \<open>AssertionError\<close> of \<open>assert horizon > 0\<close>; and an exception raised inside a collaborator
  (the design or the state belief) that passes through.
\<close>

datatype 'e kf_exn =
    Measure_size_error nat "nat \<times> nat \<times> nat"
  | Index_error
  | Assertion_error
  | Collaborator_error 'e

definition bind_result :: "'x + 'a \<Rightarrow> ('a \<Rightarrow> 'x + 'b) \<Rightarrow> 'x + 'b" where
  "bind_result r f = (case r of Inl e \<Rightarrow> Inl e | Inr x \<Rightarrow> f x)"

definition collaborator :: "'e + 'a \<Rightarrow> 'e kf_exn + 'a" where
  "collaborator r = (case r of Inl e \<Rightarrow> Inl (Collaborator_error e) | Inr x \<Rightarrow> Inr x)"

text \<open>
  \<open>xs[t]\<close> for a natural index, and the slice \<open>input[:, t, :]\<close>: the observations of
  every group at timestep \<open>t\<close>.
\<close>

definition index :: "'a list \<Rightarrow> nat \<Rightarrow> 'e kf_exn + 'a" where
  "index xs t = (if t < length xs then Inr (xs ! t) else Inl Index_error)"

definition observations_at :: "tensor3 \<Rightarrow> nat \<Rightarrow> observations" where
  "observations_at input t =
     (case shape input of
        (num_groups, num_timesteps, num_measures) \<Rightarrow>
          map (\<lambda>g. map (\<lambda>m. entry input g t m) [0..<num_measures]) [0..<num_groups])"

definition time_slice :: "tensor3 \<Rightarrow> nat \<Rightarrow> 'e kf_exn + observations" where
  "time_slice input t =
     (case shape input of
        (num_groups, num_timesteps, num_measures) \<Rightarrow>
          if t < num_timesteps then Inr (observations_at input t) else Inl Index_error)"

subsection \<open>The collaborators: design and state belief\<close>

text \<open>
  \<open>Design\<close>, \<open>DesignForBatch\<close>, \<open>StateBelief\<close> and \<open>StateBeliefOverTime\<close> are imported by
  \<open>kalman_filter.py\<close> and are not among the source files. The filter is defined over
  them as parameters: a design-for-batch holds the matrices \<open>F[t]\<close>, \<open>Q[t]\<close>, \<open>H[t]\<close>,
  \<open>R[t]\<close> (one matrix per group at each timestep) and yields the initial means and
  covariances; the family of the filter (\<open>self.family\<close>) gives the operations of its
  beliefs, each of which may raise.
\<close>

record 'e design_for_batch =
  F :: "matrix list list"
  Q :: "matrix list list"
  H :: "matrix list list"
  R :: "matrix list list"
  get_block_diag_initial_state :: "nat \<Rightarrow> 'e + (vector list \<times> matrix list)"

record 'e design =
  measure_size :: nat
  state_size :: nat
  Design_for_batch :: "nat \<Rightarrow> nat \<Rightarrow> kwargs \<Rightarrow> 'e + 'e design_for_batch"

text \<open>
  Modelled from the spec: the class \<open>StateBeliefOverTime\<close> of \<open>state_belief.over_time\<close> is not
  among the source files. It holds the ordered per-timestep beliefs and the optional
  start datetimes; \<open>concatenate_over_time\<close> wraps the beliefs, and \<open>last_prediction\<close> is
  the last belief of the sequence (an empty sequence has none). The selection by
  datetime, \<open>slice_by_dt\<close>, builds a belief and is an operation of the family below.
\<close>

record 'b state_belief_over_time =
  state_beliefs :: "'b list"
  start_datetimes :: "datetimes option"

definition concatenate_over_time :: "'b list \<Rightarrow> datetimes option \<Rightarrow> 'b state_belief_over_time" where
  "concatenate_over_time beliefs starts = \<lparr>state_beliefs = beliefs, start_datetimes = starts\<rparr>"

definition last_prediction :: "'b state_belief_over_time \<Rightarrow> 'e kf_exn + 'b" where
  "last_prediction states =
     (case state_beliefs states of [] \<Rightarrow> Inl Index_error | b # bs \<Rightarrow> Inr (last (b # bs)))"

record ('e, 'b) family =
  new_belief :: "vector list \<Rightarrow> matrix list \<Rightarrow> 'e + 'b"
  update :: "'b \<Rightarrow> observations \<Rightarrow> 'e + 'b"
  predict :: "'b \<Rightarrow> matrix list \<Rightarrow> matrix list \<Rightarrow> 'e + 'b"
  compute_measurement :: "'b \<Rightarrow> matrix list \<Rightarrow> matrix list \<Rightarrow> 'e + 'b"
  belief_simulate :: "'b \<Rightarrow> 'e design_for_batch \<Rightarrow> kwargs \<Rightarrow> 'e + tensor3"
  slice_by_dt :: "'b state_belief_over_time \<Rightarrow> datetimes \<Rightarrow> 'e + 'b"
  batch_size :: "'b \<Rightarrow> nat"
  means :: "'b \<Rightarrow> vector list"
  covs :: "'b \<Rightarrow> matrix list"

record ('e, 'b) kalman_filter =
  design :: "'e design"
  family :: "('e, 'b) family"

text \<open>
  Three properties that a family and a design-for-batch may have, used as hypotheses
  below: every operation returns a belief of the batch size it was given;
  \<open>compute_measurement\<close> leaves means and covariances as they are; the four lists of a
  design-for-batch hold at least \<open>n\<close> timesteps.
\<close>

definition keeps_batch_size :: "('e, 'b) family \<Rightarrow> bool" where
  "keeps_batch_size fam \<longleftrightarrow>
     (\<forall>b obs b'. update fam b obs = Inr b' \<longrightarrow> batch_size fam b' = batch_size fam b) \<and>
     (\<forall>b f q b'. predict fam b f q = Inr b' \<longrightarrow> batch_size fam b' = batch_size fam b) \<and>
     (\<forall>b h r b'. compute_measurement fam b h r = Inr b' \<longrightarrow> batch_size fam b' = batch_size fam b)"

definition measurement_keeps_state :: "('e, 'b) family \<Rightarrow> bool" where
  "measurement_keeps_state fam \<longleftrightarrow>
     (\<forall>b h r b'. compute_measurement fam b h r = Inr b'
                 \<longrightarrow> means fam b' = means fam b \<and> covs fam b' = covs fam b)"

definition holds_timesteps :: "'e design_for_batch \<Rightarrow> nat \<Rightarrow> bool" where
  "holds_timesteps dfb n \<longleftrightarrow>
     n \<le> length (F dfb) \<and> n \<le> length (Q dfb) \<and> n \<le> length (H dfb) \<and> n \<le> length (R dfb)"

text \<open>
  Two designs-for-batch agree up to timestep \<open>t\<close>: they hold the same \<open>F\<close> and \<open>Q\<close> before
  \<open>t\<close> and the same \<open>H\<close> and \<open>R\<close> up to and including \<open>t\<close>, which are the entries that the
  loop of \<open>forward\<close> reads for the beliefs up to index \<open>t\<close>.
\<close>

definition designs_agree_upto :: "'e design_for_batch \<Rightarrow> 'e design_for_batch \<Rightarrow> nat \<Rightarrow> bool" where
  "designs_agree_upto d1 d2 t \<longleftrightarrow>
     take t (F d1) = take t (F d2) \<and> take t (Q d1) = take t (Q d2) \<and>
     take (Suc t) (H d1) = take (Suc t) (H d2) \<and> take (Suc t) (R d1) = take (Suc t) (R d2)"

subsection \<open>\<open>KalmanFilter.forward\<close>\<close>

text \<open>
  Modelled from the spec: \<open>identity\<close> of \<open>torch_kalman.utils\<close> is not among the source
  files, and \<open>tqdm\<close> is a library. Progress reporting is purely cosmetic: both wrappers
  yield the items of the range they wrap, in order. \<open>kwargs.get('progress', identity) or
  identity\<close> is \<open>identity\<close> unless the value is \<open>True\<close>, which selects \<open>tqdm\<close>.
\<close>

definition identity :: "nat list \<Rightarrow> nat list" where
  "identity xs = xs"

definition tqdm :: "nat list \<Rightarrow> nat list" where
  "tqdm xs = xs"

definition prog :: "kwargs \<Rightarrow> nat list \<Rightarrow> nat list" where
  "prog kw = (case kw_progress kw of Some True \<Rightarrow> tqdm | _ \<Rightarrow> identity)"

text \<open>
  The body of the loop of \<open>forward\<close> at timestep \<open>t\<close>, from the current \<open>state_prediction\<close>
  to the one that is appended. \<open>compute_measurement\<close> changes the belief in place in the
  source; here it returns the changed belief, which is both appended and carried on.
\<close>

definition forward_step ::
  "('e, 'b) family \<Rightarrow> 'e design_for_batch \<Rightarrow> tensor3 \<Rightarrow> nat \<Rightarrow> 'b \<Rightarrow> 'e kf_exn + 'b" where
  "forward_step fam dfb input t state_prediction =
     bind_result
       (if t > 0 then
          bind_result (time_slice input (t - 1)) (\<lambda>obs.
          bind_result (collaborator (update fam state_prediction obs)) (\<lambda>state_belief.
          bind_result (index (F dfb) (t - 1)) (\<lambda>f.
          bind_result (index (Q dfb) (t - 1)) (\<lambda>q.
          collaborator (predict fam state_belief f q)))))
        else Inr state_prediction)
       (\<lambda>state_prediction1.
          bind_result (index (H dfb) t) (\<lambda>h.
          bind_result (index (R dfb) t) (\<lambda>r.
          collaborator (compute_measurement fam state_prediction1 h r))))"

fun forward_loop ::
  "('e, 'b) family \<Rightarrow> 'e design_for_batch \<Rightarrow> tensor3 \<Rightarrow> nat list \<Rightarrow> 'b \<Rightarrow> 'b list
     \<Rightarrow> 'e kf_exn + 'b list" where
  "forward_loop fam dfb input [] state_prediction state_predictions = Inr state_predictions"
| "forward_loop fam dfb input (t # ts) state_prediction state_predictions =
     (case forward_step fam dfb input t state_prediction of
        Inl e \<Rightarrow> Inl e
      | Inr sp \<Rightarrow> forward_loop fam dfb input ts sp (state_predictions @ [sp]))"

text \<open>The initial state of the system: the given belief, or the one the design yields.\<close>

definition initial_state_prediction ::
  "('e, 'b) family \<Rightarrow> 'e design_for_batch \<Rightarrow> nat \<Rightarrow> 'b option \<Rightarrow> 'e kf_exn + 'b" where
  "initial_state_prediction fam dfb num_groups initial_state =
     (case initial_state of
        None \<Rightarrow>
          bind_result (collaborator (get_block_diag_initial_state dfb num_groups)) (\<lambda>(ms, cs).
          collaborator (new_belief fam ms cs))
      | Some s \<Rightarrow> Inr s)"

definition forward ::
  "('e, 'b) kalman_filter \<Rightarrow> tensor3 \<Rightarrow> 'b option \<Rightarrow> kwargs
     \<Rightarrow> 'e kf_exn + 'b state_belief_over_time" where
  "forward kf input initial_state kwargs0 =
     (let kw = kwargs0\<lparr>kw_input := Some input\<rparr> in
      case shape input of
        (num_groups, num_timesteps, num_measures) \<Rightarrow>
          if num_measures \<noteq> measure_size (design kf) then
            Inl (Measure_size_error (measure_size (design kf))
                   (num_groups, num_timesteps, num_measures))
          else
            bind_result (collaborator (Design_for_batch (design kf) num_groups num_timesteps kw))
              (\<lambda>dfb.
            bind_result (initial_state_prediction (family kf) dfb num_groups initial_state)
              (\<lambda>state_prediction.
            bind_result (forward_loop (family kf) dfb input (prog kw [0..<num_timesteps])
                           state_prediction [])
              (\<lambda>state_predictions.
            Inr (concatenate_over_time state_predictions (kw_start_datetimes kw))))))"

subsection \<open>\<open>KalmanFilter.forecast\<close> and \<open>KalmanFilter.simulate\<close>\<close>

text \<open>
  The body of the loop of \<open>forecast\<close> at step \<open>t\<close>: as in \<open>forward\<close>, without the \<open>update\<close>.
\<close>

definition forecast_step ::
  "('e, 'b) family \<Rightarrow> 'e design_for_batch \<Rightarrow> nat \<Rightarrow> 'b \<Rightarrow> 'e kf_exn + 'b" where
  "forecast_step fam dfb t state_prediction =
     bind_result
       (if t > 0 then
          bind_result (index (F dfb) (t - 1)) (\<lambda>f.
          bind_result (index (Q dfb) (t - 1)) (\<lambda>q.
          collaborator (predict fam state_prediction f q)))
        else Inr state_prediction)
       (\<lambda>state_prediction1.
          bind_result (index (H dfb) t) (\<lambda>h.
          bind_result (index (R dfb) t) (\<lambda>r.
          collaborator (compute_measurement fam state_prediction1 h r))))"

fun forecast_loop ::
  "('e, 'b) family \<Rightarrow> 'e design_for_batch \<Rightarrow> nat list \<Rightarrow> 'b \<Rightarrow> 'b list \<Rightarrow> 'e kf_exn + 'b list" where
  "forecast_loop fam dfb [] state_prediction forecasts = Inr forecasts"
| "forecast_loop fam dfb (t # ts) state_prediction forecasts =
     (case forecast_step fam dfb t state_prediction of
        Inl e \<Rightarrow> Inl e
      | Inr sp \<Rightarrow> forecast_loop fam dfb ts sp (forecasts @ [sp]))"

text \<open>
  The forecast-from time, shared by \<open>forecast\<close> and \<open>simulate\<close>: the last prediction, or
  the beliefs selected by datetime, which are also stored under \<open>start_datetimes\<close>.
\<close>

definition forecast_from ::
  "('e, 'b) family \<Rightarrow> 'b state_belief_over_time \<Rightarrow> datetimes option \<Rightarrow> kwargs
     \<Rightarrow> 'e kf_exn + ('b \<times> kwargs)" where
  "forecast_from fam states from_datetimes kw =
     (case from_datetimes of
        None \<Rightarrow> bind_result (last_prediction states) (\<lambda>b. Inr (b, kw))
      | Some d \<Rightarrow>
          bind_result (collaborator (slice_by_dt fam states d)) (\<lambda>b.
          Inr (b, kw\<lparr>kw_start_datetimes := Some d\<rparr>)))"

text \<open>
  \<open>assert horizon > 0\<close> is the first statement of both methods (assertions enabled, as
  Python runs by default); \<open>range(horizon)\<close> then has \<open>horizon\<close> items.
\<close>

definition forecast ::
  "('e, 'b) kalman_filter \<Rightarrow> 'b state_belief_over_time \<Rightarrow> int \<Rightarrow> datetimes option \<Rightarrow> kwargs
     \<Rightarrow> 'e kf_exn + 'b state_belief_over_time" where
  "forecast kf states horizon forecast_from_datetimes kwargs0 =
     (if \<not> horizon > 0 then Inl Assertion_error
      else
        bind_result (forecast_from (family kf) states forecast_from_datetimes kwargs0)
          (\<lambda>(state_prediction, kw).
        bind_result (collaborator (Design_for_batch (design kf)
                       (batch_size (family kf) state_prediction) (nat horizon) kw))
          (\<lambda>dfb.
        bind_result (forecast_loop (family kf) dfb (prog kw [0..<nat horizon]) state_prediction [])
          (\<lambda>forecasts.
        Inr (concatenate_over_time forecasts forecast_from_datetimes)))))"

definition simulate ::
  "('e, 'b) kalman_filter \<Rightarrow> 'b state_belief_over_time \<Rightarrow> int \<Rightarrow> datetimes option \<Rightarrow> kwargs
     \<Rightarrow> 'e kf_exn + tensor3" where
  "simulate kf states horizon from_datetimes kwargs0 =
     (if \<not> horizon > 0 then Inl Assertion_error
      else
        bind_result (forecast_from (family kf) states from_datetimes kwargs0)
          (\<lambda>(initial_state, kw).
        bind_result (collaborator (Design_for_batch (design kf)
                       (batch_size (family kf) initial_state) (nat horizon) kw))
          (\<lambda>dfb.
        collaborator (belief_simulate (family kf) initial_state dfb kw))))"

section \<open>The Gaussian state belief\<close>

text \<open>
  Modelled from the spec: the class \<open>Gaussian\<close> of \<open>state_belief\<close> is not among the source
  files. A belief holds, for each group of the batch, a mean vector and a covariance
  matrix, and after \<open>compute_measurement\<close> the matrices \<open>H\<close>, \<open>R\<close> together with the
  measurement mean \<open>H mean\<close> and the measurement covariance \<open>H cov H\<^sup>T + R\<close>.
  \<open>predict\<close> gives the mean \<open>F mean\<close> and the covariance \<open>F cov F\<^sup>T + Q\<close>. \<open>update\<close> takes
  \<open>H\<close> and \<open>R\<close> from the measurement stage, leaves out the rows of a group's missing
  observations, and applies the gain \<open>K = cov H\<^sup>T (H cov H\<^sup>T + R)\<^sup>-\<^sup>1\<close>: the new mean is
  \<open>mean + K (obs - H mean)\<close>, the new covariance \<open>(I - K H) cov\<close>. Tensors whose shapes do
  not fit raise. Sampling (\<open>simulate\<close>) is left as a parameter of the family.
\<close>

datatype gaussian_exn = Shape_error | Not_measured | Singular_matrix | Datetime_error

definition dot :: "vector \<Rightarrow> vector \<Rightarrow> real" where
  "dot u v = sum_list (map2 (*) u v)"

definition mat_vec :: "matrix \<Rightarrow> vector \<Rightarrow> vector" where
  "mat_vec A v = map (\<lambda>row. dot row v) A"

definition mat_T :: "matrix \<Rightarrow> matrix" where
  "mat_T A = transpose A"

definition mat_mul :: "matrix \<Rightarrow> matrix \<Rightarrow> matrix" where
  "mat_mul A B = map (\<lambda>row. map (\<lambda>col. dot row col) (mat_T B)) A"

definition mat_add :: "matrix \<Rightarrow> matrix \<Rightarrow> matrix" where
  "mat_add A B = map2 (map2 (+)) A B"

definition mat_sub :: "matrix \<Rightarrow> matrix \<Rightarrow> matrix" where
  "mat_sub A B = map2 (map2 (-)) A B"

definition identity_matrix :: "nat \<Rightarrow> matrix" where
  "identity_matrix n = map (\<lambda>i. map (\<lambda>j. if i = j then 1 else 0) [0..<n]) [0..<n]"

definition is_matrix :: "nat \<Rightarrow> nat \<Rightarrow> matrix \<Rightarrow> bool" where
  "is_matrix r c A \<longleftrightarrow> length A = r \<and> list_all (\<lambda>row. length row = c) A"

text \<open>The inverse, by Gauss-Jordan elimination on the matrix extended by the identity.\<close>

fun gauss_jordan :: "nat \<Rightarrow> nat \<Rightarrow> matrix \<Rightarrow> matrix option" where
  "gauss_jordan 0 k A = Some A"
| "gauss_jordan (Suc n) k A =
     (case filter (\<lambda>i. A ! i ! k \<noteq> 0) [k..<length A] of
        [] \<Rightarrow> None
      | i # _ \<Rightarrow>
         (let B = A[k := A ! i, i := A ! k];
              p = map (\<lambda>x. x / (B ! k ! k)) (B ! k);
              C = map (\<lambda>j. if j = k then p
                            else map2 (\<lambda>x y. x - (B ! j ! k) * y) (B ! j) p) [0..<length B]
          in gauss_jordan n (Suc k) C))"

definition mat_inv :: "matrix \<Rightarrow> matrix option" where
  "mat_inv A =
     (let n = length A in
      map_option (map (drop n)) (gauss_jordan n 0 (map2 (@) A (identity_matrix n))))"

text \<open>
  The belief, with the measurement stage once it is computed; \<open>sequence\<close> collects the
  results of the groups, or the first exception.
\<close>

record measurement =
  meas_H :: "matrix list"
  meas_R :: "matrix list"
  meas_means :: "vector list"
  meas_covs :: "matrix list"

record gaussian =
  g_means :: "vector list"
  g_covs :: "matrix list"
  g_measurement :: "measurement option"

fun sequence :: "('e + 'a) list \<Rightarrow> 'e + 'a list" where
  "sequence [] = Inr []"
| "sequence (x # xs) =
     (case x of
        Inl e \<Rightarrow> Inl e
      | Inr y \<Rightarrow> (case sequence xs of Inl e \<Rightarrow> Inl e | Inr ys \<Rightarrow> Inr (y # ys)))"

definition gaussian_new :: "vector list \<Rightarrow> matrix list \<Rightarrow> gaussian_exn + gaussian" where
  "gaussian_new ms cs =
     (if length ms = length cs then Inr \<lparr>g_means = ms, g_covs = cs, g_measurement = None\<rparr>
      else Inl Shape_error)"

definition predict1 ::
  "vector \<Rightarrow> matrix \<Rightarrow> matrix \<Rightarrow> matrix \<Rightarrow> gaussian_exn + (vector \<times> matrix)" where
  "predict1 mean cov f q =
     (let n = length mean in
      if is_matrix n n cov \<and> is_matrix n n f \<and> is_matrix n n q then
        Inr (mat_vec f mean, mat_add (mat_mul (mat_mul f cov) (mat_T f)) q)
      else Inl Shape_error)"

definition gaussian_predict :: "gaussian \<Rightarrow> matrix list \<Rightarrow> matrix list \<Rightarrow> gaussian_exn + gaussian" where
  "gaussian_predict b f q =
     (let n_groups = length (g_means b) in
      if length (g_covs b) = n_groups \<and> length f = n_groups \<and> length q = n_groups then
        (case sequence (map (\<lambda>g. predict1 (g_means b ! g) (g_covs b ! g) (f ! g) (q ! g))
                          [0..<n_groups]) of
           Inl e \<Rightarrow> Inl e
         | Inr rs \<Rightarrow> Inr \<lparr>g_means = map fst rs, g_covs = map snd rs, g_measurement = None\<rparr>)
      else Inl Shape_error)"

definition measure1 ::
  "vector \<Rightarrow> matrix \<Rightarrow> matrix \<Rightarrow> matrix \<Rightarrow> gaussian_exn + (vector \<times> matrix)" where
  "measure1 mean cov h r =
     (let n = length mean; m = length h in
      if is_matrix n n cov \<and> is_matrix m n h \<and> is_matrix m m r then
        Inr (mat_vec h mean, mat_add (mat_mul (mat_mul h cov) (mat_T h)) r)
      else Inl Shape_error)"

definition gaussian_compute_measurement ::
  "gaussian \<Rightarrow> matrix list \<Rightarrow> matrix list \<Rightarrow> gaussian_exn + gaussian" where
  "gaussian_compute_measurement b h r =
     (let n_groups = length (g_means b) in
      if length (g_covs b) = n_groups \<and> length h = n_groups \<and> length r = n_groups then
        (case sequence (map (\<lambda>g. measure1 (g_means b ! g) (g_covs b ! g) (h ! g) (r ! g))
                          [0..<n_groups]) of
           Inl e \<Rightarrow> Inl e
         | Inr rs \<Rightarrow>
             Inr (b\<lparr>g_measurement :=
                      Some \<lparr>meas_H = h, meas_R = r, meas_means = map fst rs, meas_covs = map snd rs\<rparr>\<rparr>))
      else Inl Shape_error)"

definition update1 ::
  "vector \<Rightarrow> matrix \<Rightarrow> matrix \<Rightarrow> matrix \<Rightarrow> real option list \<Rightarrow> gaussian_exn + (vector \<times> matrix)" where
  "update1 mean cov h r obs =
     (let n = length mean; m = length obs in
      if \<not> (is_matrix n n cov \<and> is_matrix m n h \<and> is_matrix m m r) then Inl Shape_error
      else
        (let observed = concat (map (\<lambda>i. case obs ! i of None \<Rightarrow> [] | Some y \<Rightarrow> [(i, y)]) [0..<m])
         in if observed = [] then Inr (mean, cov)
            else
              (let h1 = map (\<lambda>iy. h ! fst iy) observed;
                   r1 = map (\<lambda>iy. map (\<lambda>jy. r ! fst iy ! fst jy) observed) observed;
                   s = mat_add (mat_mul (mat_mul h1 cov) (mat_T h1)) r1
               in case mat_inv s of
                    None \<Rightarrow> Inl Singular_matrix
                  | Some s_inv \<Rightarrow>
                      (let k = mat_mul (mat_mul cov (mat_T h1)) s_inv;
                           innovation = map2 (-) (map snd observed) (mat_vec h1 mean)
                       in Inr (map2 (+) mean (mat_vec k innovation),
                               mat_mul (mat_sub (identity_matrix n) (mat_mul k h1)) cov)))))"

definition gaussian_update :: "gaussian \<Rightarrow> observations \<Rightarrow> gaussian_exn + gaussian" where
  "gaussian_update b obs =
     (case g_measurement b of
        None \<Rightarrow> Inl Not_measured
      | Some ms \<Rightarrow>
         (let n_groups = length (g_means b) in
          if length (g_covs b) = n_groups \<and> length (meas_H ms) = n_groups
             \<and> length (meas_R ms) = n_groups \<and> length obs = n_groups then
            (case sequence (map (\<lambda>g. update1 (g_means b ! g) (g_covs b ! g) (meas_H ms ! g)
                                        (meas_R ms ! g) (obs ! g)) [0..<n_groups]) of
               Inl e \<Rightarrow> Inl e
             | Inr rs \<Rightarrow> Inr \<lparr>g_means = map fst rs, g_covs = map snd rs, g_measurement = None\<rparr>)
          else Inl Shape_error))"

definition gaussian_slice_by_dt ::
  "gaussian state_belief_over_time \<Rightarrow> datetimes \<Rightarrow> gaussian_exn + gaussian" where
  "gaussian_slice_by_dt states dts =
     (case start_datetimes states of
        None \<Rightarrow> Inl Datetime_error
      | Some starts \<Rightarrow>
         (let bs = state_beliefs states in
          if length dts \<noteq> length starts then Inl Shape_error
          else
            (case sequence (map (\<lambda>g. let k = dts ! g - starts ! g in
                                      if 0 \<le> k \<and> nat k < length bs
                                         \<and> g < length (g_means (bs ! nat k))
                                         \<and> g < length (g_covs (bs ! nat k))
                                      then Inr (g_means (bs ! nat k) ! g, g_covs (bs ! nat k) ! g)
                                      else Inl Datetime_error) [0..<length starts]) of
               Inl e \<Rightarrow> Inl e
             | Inr rs \<Rightarrow> Inr \<lparr>g_means = map fst rs, g_covs = map snd rs, g_measurement = None\<rparr>)))"

definition Gaussian ::
  "(gaussian \<Rightarrow> gaussian_exn design_for_batch \<Rightarrow> kwargs \<Rightarrow> gaussian_exn + tensor3)
     \<Rightarrow> (gaussian_exn, gaussian) family" where
  "Gaussian sampler =
     \<lparr>new_belief = gaussian_new, update = gaussian_update, predict = gaussian_predict,
      compute_measurement = gaussian_compute_measurement, belief_simulate = sampler,
      slice_by_dt = gaussian_slice_by_dt, batch_size = (\<lambda>b. length (g_means b)),
      means = g_means, covs = g_covs\<rparr>"

section \<open>A filter with one state element and one measure\<close>

text \<open>
  The examples below run this filter: the state doubles at every step (\<open>F = 2\<close>), and
  \<open>Q\<close>, \<open>H\<close>, \<open>R\<close>, the initial mean and the initial variance are all 1.
\<close>

definition demo_design_for_batch :: "nat \<Rightarrow> nat \<Rightarrow> gaussian_exn design_for_batch" where
  "demo_design_for_batch num_groups num_timesteps =
     \<lparr>F = replicate num_timesteps (replicate num_groups [[2]]),
      Q = replicate num_timesteps (replicate num_groups [[1]]),
      H = replicate num_timesteps (replicate num_groups [[1]]),
      R = replicate num_timesteps (replicate num_groups [[1]]),
      get_block_diag_initial_state = (\<lambda>n. Inr (replicate n [1], replicate n [[1]]))\<rparr>"

definition demo_design :: "gaussian_exn design" where
  "demo_design =
     \<lparr>measure_size = 1, state_size = 1,
      Design_for_batch = (\<lambda>num_groups num_timesteps kw.
        Inr (demo_design_for_batch num_groups num_timesteps))\<rparr>"

text \<open>The example family draws no samples: its sampler returns missing values only.\<close>

definition no_sampler ::
  "gaussian \<Rightarrow> gaussian_exn design_for_batch \<Rightarrow> kwargs \<Rightarrow> gaussian_exn + tensor3" where
  "no_sampler b dfb kw =
     Inr \<lparr>shape = (length (g_means b), length (F dfb), 1), entry = (\<lambda>g t m. None)\<rparr>"

definition demo_filter :: "(gaussian_exn, gaussian) kalman_filter" where
  "demo_filter = \<lparr>design = demo_design, family = Gaussian no_sampler\<rparr>"

definition demo_input :: tensor3 where
  "demo_input = \<lparr>shape = (1, 2, 1), entry = (\<lambda>g t m. if t = 0 then Some 3 else Some 5)\<rparr>"

definition no_kwargs :: kwargs where
  "no_kwargs =
     \<lparr>kw_input = None, kw_progress = None, kw_start_datetimes = None, kw_other = Map.empty\<rparr>"

definition demo_belief0 :: gaussian where
  "demo_belief0 =
     \<lparr>g_means = [[1]], g_covs = [[[1]]],
      g_measurement = Some \<lparr>meas_H = [[[1]]], meas_R = [[[1]]], meas_means = [[1]],
                             meas_covs = [[[2]]]\<rparr>\<rparr>"

definition demo_belief1 :: gaussian where
  "demo_belief1 =
     \<lparr>g_means = [[4]], g_covs = [[[3]]],
      g_measurement = Some \<lparr>meas_H = [[[1]]], meas_R = [[[1]]], meas_means = [[4]],
                             meas_covs = [[[4]]]\<rparr>\<rparr>"

definition demo_prior :: gaussian where
  "demo_prior = \<lparr>g_means = [[1]], g_covs = [[[1]]], g_measurement = None\<rparr>"

definition demo_states :: "gaussian state_belief_over_time" where
  "demo_states = \<lparr>state_beliefs = [demo_belief0, demo_belief1], start_datetimes = None\<rparr>"

text \<open>
  A run of the filter from a given initial state, and a forecast of two steps from
  \<open>demo_states\<close>.
\<close>

definition given_state :: gaussian where
  "given_state = \<lparr>g_means = [[5]], g_covs = [[[2]]], g_measurement = None\<rparr>"

definition given_states :: "gaussian state_belief_over_time" where
  "given_states =
     \<lparr>state_beliefs =
        [\<lparr>g_means = [[5]], g_covs = [[[2]]],
          g_measurement = Some \<lparr>meas_H = [[[1]]], meas_R = [[[1]]], meas_means = [[5]],
                                 meas_covs = [[[3]]]\<rparr>\<rparr>,
         \<lparr>g_means = [[22 / 3]], g_covs = [[[11 / 3]]],
          g_measurement = Some \<lparr>meas_H = [[[1]]], meas_R = [[[1]]], meas_means = [[22 / 3]],
                                 meas_covs = [[[14 / 3]]]\<rparr>\<rparr>],
      start_datetimes = None\<rparr>"

definition demo_forecast :: "gaussian state_belief_over_time" where
  "demo_forecast =
     \<lparr>state_beliefs =
        [demo_belief1,
         \<lparr>g_means = [[8]], g_covs = [[[13]]],
          g_measurement = Some \<lparr>meas_H = [[[1]]], meas_R = [[[1]]], meas_means = [[8]],
                                 meas_covs = [[[14]]]\<rparr>\<rparr>],
      start_datetimes = None\<rparr>"

text \<open>An input with two measures, which the filter of one measure refuses.\<close>

definition wide_input :: tensor3 where
  "wide_input = \<lparr>shape = (1, 2, 2), entry = (\<lambda>g t m. Some 3)\<rparr>"

text \<open>
  An input that differs from \<open>demo_input\<close> at the final timestep only, and a design one of
  whose processes reads the \<open>input\<close> keyword: the transition coefficient of each group is
  the last observation of that group's first measure.
\<close>

definition other_input :: tensor3 where
  "other_input = \<lparr>shape = (1, 2, 1), entry = (\<lambda>g t m. if t = 0 then Some 3 else Some 7)\<rparr>"

definition last_observation :: "kwargs \<Rightarrow> nat \<Rightarrow> nat \<Rightarrow> real" where
  "last_observation kw num_timesteps g =
     (case kw_input kw of
        None \<Rightarrow> 1
      | Some inp \<Rightarrow> (case entry inp g (num_timesteps - 1) 0 of None \<Rightarrow> 1 | Some v \<Rightarrow> v))"

definition input_reading_design :: "gaussian_exn design" where
  "input_reading_design =
     \<lparr>measure_size = 1, state_size = 1,
      Design_for_batch = (\<lambda>num_groups num_timesteps kw.
        Inr ((demo_design_for_batch num_groups num_timesteps)
               \<lparr>F := replicate num_timesteps
                       (map (\<lambda>g. [[last_observation kw num_timesteps g]]) [0..<num_groups])\<rparr>))\<rparr>"

definition input_reading_filter :: "(gaussian_exn, gaussian) kalman_filter" where
  "input_reading_filter = \<lparr>design = input_reading_design, family = Gaussian no_sampler\<rparr>"

text \<open>A design whose \<open>for_batch\<close> always raises.\<close>

definition failing_filter :: "(gaussian_exn, gaussian) kalman_filter" where
  "failing_filter =
     \<lparr>design = \<lparr>measure_size = 1, state_size = 1,
                 Design_for_batch = (\<lambda>num_groups num_timesteps kw. Inl Shape_error)\<rparr>,
      family = Gaussian no_sampler\<rparr>"

text \<open>
  A filter whose design ignores the number of groups and builds its matrices for one
  group, and an input of three groups; a filter without noise, whose measurement
  covariance is singular.
\<close>

definition broadcast_filter :: "(gaussian_exn, gaussian) kalman_filter" where
  "broadcast_filter =
     \<lparr>design = \<lparr>measure_size = 1, state_size = 1,
                 Design_for_batch = (\<lambda>num_groups num_timesteps kw.
                   Inr (demo_design_for_batch 1 num_timesteps))\<rparr>,
      family = Gaussian no_sampler\<rparr>"

definition three_group_input :: tensor3 where
  "three_group_input = \<lparr>shape = (3, 1, 1), entry = (\<lambda>g t m. Some 3)\<rparr>"

definition zero_noise_filter :: "(gaussian_exn, gaussian) kalman_filter" where
  "zero_noise_filter =
     \<lparr>design = \<lparr>measure_size = 1, state_size = 1,
                 Design_for_batch = (\<lambda>num_groups num_timesteps kw.
                   Inr \<lparr>F = replicate num_timesteps (replicate num_groups [[1]]),
                        Q = replicate num_timesteps (replicate num_groups [[0]]),
                        H = replicate num_timesteps (replicate num_groups [[1]]),
                        R = replicate num_timesteps (replicate num_groups [[0]]),
                        get_block_diag_initial_state =
                          (\<lambda>n. Inr (replicate n [0], replicate n [[0]]))\<rparr>)\<rparr>,
      family = Gaussian no_sampler\<rparr>"

text \<open>
  An input of three timesteps that starts as the example input does, and the beliefs that
  the example filter returns on it.
\<close>

definition long_input :: tensor3 where
  "long_input = \<lparr>shape = (1, 3, 1), entry = (\<lambda>g t m. if t = 0 then Some 3 else Some 5)\<rparr>"

definition long_states :: "gaussian state_belief_over_time" where
  "long_states =
     \<lparr>state_beliefs =
        [demo_belief0, demo_belief1,
         \<lparr>g_means = [[19 / 2]], g_covs = [[[4]]],
          g_measurement = Some \<lparr>meas_H = [[[1]]], meas_R = [[[1]]], meas_means = [[19 / 2]],
                                 meas_covs = [[[5]]]\<rparr>\<rparr>],
      start_datetimes = None\<rparr>"

section \<open>Properties\<close>

subsection \<open>Results of the monadic plumbing\<close>

lemma prog_same: "prog kw xs = xs"
  by (simp add: prog_def identity_def tqdm_def split: option.splits bool.splits)

lemma bind_result_Inr: "bind_result r f = Inr y \<longleftrightarrow> (\<exists>x. r = Inr x \<and> f x = Inr y)"
  by (cases r) (simp_all add: bind_result_def)

lemma collaborator_Inr: "collaborator r = Inr x \<longleftrightarrow> r = Inr x"
  by (cases r) (simp_all add: collaborator_def)

lemma index_Inr: "index xs t = Inr x \<longleftrightarrow> t < length xs \<and> x = xs ! t"
  by (auto simp: index_def)

lemma time_slice_Inr:
  "time_slice inp t = Inr obs \<longleftrightarrow> t < fst (snd (shape inp)) \<and> obs = observations_at inp t"
  by (auto simp: time_slice_def split: prod.splits)

lemma forward_step_Inr:
  "forward_step fam dfb inp t sp = Inr sp' \<longleftrightarrow>
     t < length (H dfb) \<and> t < length (R dfb) \<and>
     (\<exists>sp1. (if t = 0 then sp1 = sp
             else t - 1 < fst (snd (shape inp)) \<and> t - 1 < length (F dfb) \<and> t - 1 < length (Q dfb) \<and>
                  (\<exists>sb. update fam sp (observations_at inp (t - 1)) = Inr sb \<and>
                        predict fam sb (F dfb ! (t - 1)) (Q dfb ! (t - 1)) = Inr sp1)) \<and>
            compute_measurement fam sp1 (H dfb ! t) (R dfb ! t) = Inr sp')"
  unfolding forward_step_def
  by (auto simp: bind_result_Inr collaborator_Inr index_Inr time_slice_Inr)

lemma forward_loop_Inr:
  "forward_loop fam dfb inp ts sp acc = Inr out \<Longrightarrow>
     \<exists>new. out = acc @ new \<and> length new = length ts \<and>
       (\<forall>i<length ts. forward_step fam dfb inp (ts ! i) (if i = 0 then sp else new ! (i - 1))
                       = Inr (new ! i))"
proof (induction ts arbitrary: sp acc)
  case Nil
  then show ?case by simp
next
  case (Cons t ts)
  from Cons.prems obtain sp1 where
    step: "forward_step fam dfb inp t sp = Inr sp1" and
    rest: "forward_loop fam dfb inp ts sp1 (acc @ [sp1]) = Inr out"
    by (auto split: sum.splits)
  from Cons.IH [OF rest] obtain new where
    out: "out = (acc @ [sp1]) @ new" and len: "length new = length ts" and
    ih: "\<forall>i<length ts. forward_step fam dfb inp (ts ! i) (if i = 0 then sp1 else new ! (i - 1))
                       = Inr (new ! i)"
    by blast
  have "\<forall>i<length (t # ts).
          forward_step fam dfb inp ((t # ts) ! i) (if i = 0 then sp else (sp1 # new) ! (i - 1))
          = Inr ((sp1 # new) ! i)"
  proof (intro allI impI)
    fix i assume i: "i < length (t # ts)"
    show "forward_step fam dfb inp ((t # ts) ! i) (if i = 0 then sp else (sp1 # new) ! (i - 1))
          = Inr ((sp1 # new) ! i)"
    proof (cases i)
      case 0
      then show ?thesis using step by simp
    next
      case (Suc j)
      with i have "j < length ts" by simp
      with ih have "forward_step fam dfb inp (ts ! j) (if j = 0 then sp1 else new ! (j - 1))
                     = Inr (new ! j)" by blast
      then show ?thesis using Suc by (cases j) simp_all
    qed
  qed
  moreover have "out = acc @ (sp1 # new)" using out by simp
  moreover have "length (sp1 # new) = length (t # ts)" using len by simp
  ultimately show ?case by blast
qed

lemma forward_Inr:
  assumes "forward kf inp init kw = Inr out" and "shape inp = (G, T, M)"
  shows "M = measure_size (design kf) \<and>
         (\<exists>dfb sp0 bs.
            Design_for_batch (design kf) G T (kw\<lparr>kw_input := Some inp\<rparr>) = Inr dfb \<and>
            initial_state_prediction (family kf) dfb G init = Inr sp0 \<and>
            forward_loop (family kf) dfb inp [0..<T] sp0 [] = Inr bs \<and>
            out = concatenate_over_time bs (kw_start_datetimes kw))"
  using assms
  by (auto simp: forward_def Let_def bind_result_Inr collaborator_Inr prog_same split: if_splits)

lemma forward_step_Inl:
  assumes "forward_step fam dfb inp t sp = Inl e"
    and "t < length (H dfb)" "t < length (R dfb)"
    and "t - 1 < length (F dfb)" "t - 1 < length (Q dfb)" "t - 1 < fst (snd (shape inp))"
  shows "\<exists>c. e = Collaborator_error c"
  using assms
  by (auto simp: forward_step_def bind_result_def collaborator_def index_def time_slice_def
           split: sum.splits if_splits prod.splits)

lemma forward_loop_Inl:
  assumes "forward_loop fam dfb inp ts sp acc = Inl e"
    and "\<forall>t\<in>set ts. t < n" and "holds_timesteps dfb n" and "fst (snd (shape inp)) = n"
  shows "\<exists>c. e = Collaborator_error c"
  using assms
proof (induction ts arbitrary: sp acc)
  case Nil
  then show ?case by simp
next
  case (Cons t ts)
  have t: "t < n" using Cons.prems(2) by simp
  show ?case
  proof (cases "forward_step fam dfb inp t sp")
    case (Inl e')
    with Cons.prems(1) have "e' = e" by simp
    with Inl t Cons.prems(3,4) show ?thesis
      by (intro forward_step_Inl [of fam dfb inp t sp e]) (auto simp: holds_timesteps_def)
  next
    case (Inr sp1)
    with Cons.prems(1) have "forward_loop fam dfb inp ts sp1 (acc @ [sp1]) = Inl e" by simp
    then show ?thesis using Cons.IH Cons.prems(2,3,4) by simp
  qed
qed

lemma initial_state_prediction_Inl:
  "initial_state_prediction fam dfb g init = Inl e \<Longrightarrow> \<exists>c. e = Collaborator_error c"
  by (auto simp: initial_state_prediction_def bind_result_def collaborator_def
           split: option.splits sum.splits prod.splits)

lemma forward_step_batch:
  assumes "keeps_batch_size fam" and "forward_step fam dfb inp t sp = Inr sp'"
  shows "batch_size fam sp' = batch_size fam sp"
proof -
  from assms(2) obtain sp1 where
    a: "if t = 0 then sp1 = sp
        else \<exists>sb. update fam sp (observations_at inp (t - 1)) = Inr sb \<and>
                   predict fam sb (F dfb ! (t - 1)) (Q dfb ! (t - 1)) = Inr sp1" and
    b: "compute_measurement fam sp1 (H dfb ! t) (R dfb ! t) = Inr sp'"
    unfolding forward_step_Inr by (cases "t = 0") auto
  have "batch_size fam sp1 = batch_size fam sp"
  proof (cases "t = 0")
    case True
    with a show ?thesis by simp
  next
    case False
    with a obtain sb where
      u: "update fam sp (observations_at inp (t - 1)) = Inr sb" and
      p: "predict fam sb (F dfb ! (t - 1)) (Q dfb ! (t - 1)) = Inr sp1"
      by auto
    from u assms(1) have "batch_size fam sb = batch_size fam sp"
      unfolding keeps_batch_size_def by blast
    moreover from p assms(1) have "batch_size fam sp1 = batch_size fam sb"
      unfolding keeps_batch_size_def by blast
    ultimately show ?thesis by simp
  qed
  moreover from b assms(1) have "batch_size fam sp' = batch_size fam sp1"
    unfolding keeps_batch_size_def by blast
  ultimately show ?thesis by simp
qed

lemma forward_loop_batch:
  assumes "keeps_batch_size fam" and "forward_loop fam dfb inp ts sp acc = Inr out"
    and "batch_size fam sp = g" and "\<forall>b\<in>set acc. batch_size fam b = g"
  shows "\<forall>b\<in>set out. batch_size fam b = g"
  using assms(2-)
proof (induction ts arbitrary: sp acc)
  case Nil
  then show ?case by simp
next
  case (Cons t ts)
  from Cons.prems(1) obtain sp1 where
    step: "forward_step fam dfb inp t sp = Inr sp1" and
    rest: "forward_loop fam dfb inp ts sp1 (acc @ [sp1]) = Inr out"
    by (auto split: sum.splits)
  from forward_step_batch [OF assms(1) step] Cons.prems(2) have "batch_size fam sp1 = g" by simp
  with Cons.IH [OF rest] Cons.prems(3) show ?case by simp
qed

lemma forward_step_Inl_kind:
  "forward_step fam dfb inp t sp = Inl e \<Longrightarrow> e = Index_error \<or> (\<exists>c. e = Collaborator_error c)"
  by (auto simp: forward_step_def bind_result_def collaborator_def index_def time_slice_def
           split: sum.splits if_splits prod.splits)

lemma forward_loop_Inl_kind:
  "forward_loop fam dfb inp ts sp acc = Inl e \<Longrightarrow> e = Index_error \<or> (\<exists>c. e = Collaborator_error c)"
proof (induction ts arbitrary: sp acc)
  case Nil
  then show ?case by simp
next
  case (Cons t ts)
  then show ?case
    by (cases "forward_step fam dfb inp t sp") (auto dest: forward_step_Inl_kind)
qed

lemma forward_Inl_cases:
  assumes "forward kf inp init kw = Inl e" and "shape inp = (G, T, M)"
  shows "(M \<noteq> measure_size (design kf) \<and> e = Measure_size_error (measure_size (design kf)) (G, T, M)) \<or>
         (M = measure_size (design kf) \<and>
           ((\<exists>c. e = Collaborator_error c) \<or>
            (\<exists>dfb sp0. Design_for_batch (design kf) G T (kw\<lparr>kw_input := Some inp\<rparr>) = Inr dfb \<and>
                       initial_state_prediction (family kf) dfb G init = Inr sp0 \<and>
                       forward_loop (family kf) dfb inp [0..<T] sp0 [] = Inl e)))"
  using assms
  by (auto simp: forward_def Let_def bind_result_def collaborator_def prog_same
           dest: initial_state_prediction_Inl split: sum.splits if_splits)

lemma forward_Inl_measure:
  assumes "shape inp = (G, T, M)"
  shows "forward kf inp init kw = Inl (Measure_size_error a b) \<longleftrightarrow>
           M \<noteq> measure_size (design kf) \<and> a = measure_size (design kf) \<and> b = (G, T, M)"
proof
  assume "forward kf inp init kw = Inl (Measure_size_error a b)"
  from forward_Inl_cases [OF this assms] show
    "M \<noteq> measure_size (design kf) \<and> a = measure_size (design kf) \<and> b = (G, T, M)"
    by (auto dest: forward_loop_Inl_kind)
next
  assume "M \<noteq> measure_size (design kf) \<and> a = measure_size (design kf) \<and> b = (G, T, M)"
  then show "forward kf inp init kw = Inl (Measure_size_error a b)"
    using assms by (simp add: forward_def Let_def)
qed

lemma forward_Inl_collaborator:
  assumes "forward kf inp init kw = Inl e" and "shape inp = (G, T, M)"
    and "M = measure_size (design kf)"
    and "\<forall>dfb. Design_for_batch (design kf) G T (kw\<lparr>kw_input := Some inp\<rparr>) = Inr dfb
               \<longrightarrow> holds_timesteps dfb T"
  shows "\<exists>c. e = Collaborator_error c"
proof -
  from forward_Inl_cases [OF assms(1,2)] assms(3) consider
    "\<exists>c. e = Collaborator_error c" |
    dfb sp0 where "Design_for_batch (design kf) G T (kw\<lparr>kw_input := Some inp\<rparr>) = Inr dfb"
      "forward_loop (family kf) dfb inp [0..<T] sp0 [] = Inl e"
    by blast
  then show ?thesis
  proof cases
    case 1
    then show ?thesis .
  next
    case 2
    with assms(4) have "holds_timesteps dfb T" by blast
    with 2(2) assms(2) show ?thesis
      by (intro forward_loop_Inl [of "family kf" dfb inp "[0..<T]" sp0 "[]" e T]) auto
  qed
qed


lemma sequence_length: "sequence xs = Inr ys \<Longrightarrow> length ys = length xs"
  by (induction xs arbitrary: ys) (auto split: sum.splits)

lemma gaussian_predict_batch:
  "gaussian_predict b f q = Inr b' \<Longrightarrow> length (g_means b') = length (g_means b)"
  by (auto simp: gaussian_predict_def Let_def split: if_splits sum.splits dest: sequence_length)

lemma gaussian_update_batch:
  "gaussian_update b obs = Inr b' \<Longrightarrow> length (g_means b') = length (g_means b)"
  by (auto simp: gaussian_update_def Let_def split: option.splits if_splits sum.splits
           dest: sequence_length)

lemma gaussian_compute_measurement_state:
  "gaussian_compute_measurement b h r = Inr b' \<Longrightarrow> g_means b' = g_means b \<and> g_covs b' = g_covs b"
  by (auto simp: gaussian_compute_measurement_def Let_def split: if_splits sum.splits)

lemma Gaussian_keeps_batch_size: "keeps_batch_size (Gaussian sampler)"
  unfolding keeps_batch_size_def Gaussian_def
  by (auto dest: gaussian_predict_batch gaussian_update_batch gaussian_compute_measurement_state)

subsection \<open>The example filter\<close>

lemma demo_forward: "forward demo_filter demo_input None no_kwargs = Inr demo_states"
  by code_simp

lemma demo_shape: "shape demo_input = (1, 2, 1)"
  by (simp add: demo_input_def)

lemma demo_design_built:
  "Design_for_batch (design demo_filter) g t kw = Inr (demo_design_for_batch g t)"
  by (simp add: demo_filter_def demo_design_def)

lemma demo_initial:
  "initial_state_prediction (family demo_filter) (demo_design_for_batch 1 2) 1 None = Inr demo_prior"
  by code_simp

subsection \<open>\<open>forward\<close>: how the beliefs are built\<close>

text \<open>
  C1. When \<open>forward\<close> returns for an input of \<open>T\<close> timesteps, it returns \<open>T\<close> beliefs. The belief
  at index 0 is the initial state prediction with the measurement computed from \<open>H[0]\<close> and
  \<open>R[0]\<close>. The belief at an index \<open>t > 0\<close> is built from the belief at index \<open>t - 1\<close>: first
  \<open>update\<close> with the observations at index \<open>t - 1\<close>, then \<open>predict\<close> with \<open>F[t - 1]\<close> and
  \<open>Q[t - 1]\<close>, then \<open>compute_measurement\<close> with \<open>H[t]\<close> and \<open>R[t]\<close>; its result is what is
  appended.
\<close>

theorem forward_builds_beliefs:
  assumes "forward kf inp init kw = Inr out"
    and "shape inp = (G, T, M)"
    and "Design_for_batch (design kf) G T (kw\<lparr>kw_input := Some inp\<rparr>) = Inr dfb"
    and "initial_state_prediction (family kf) dfb G init = Inr sp0"
  shows "length (state_beliefs out) = T \<and>
         (\<forall>t<T. t < length (H dfb) \<and> t < length (R dfb) \<and>
            (\<exists>sp. (if t = 0 then sp = sp0
                   else t - 1 < length (F dfb) \<and> t - 1 < length (Q dfb) \<and>
                        (\<exists>sb. update (family kf) (state_beliefs out ! (t - 1))
                                 (observations_at inp (t - 1)) = Inr sb \<and>
                              predict (family kf) sb (F dfb ! (t - 1)) (Q dfb ! (t - 1)) = Inr sp)) \<and>
                  compute_measurement (family kf) sp (H dfb ! t) (R dfb ! t)
                    = Inr (state_beliefs out ! t)))"
proof -
  from forward_Inr [OF assms(1,2)] assms(3,4) obtain bs where
    loop: "forward_loop (family kf) dfb inp [0..<T] sp0 [] = Inr bs" and
    out: "out = concatenate_over_time bs (kw_start_datetimes kw)"
    by auto
  from forward_loop_Inr [OF loop] have
    len: "length bs = T" and
    steps: "\<forall>i<T. forward_step (family kf) dfb inp i (if i = 0 then sp0 else bs ! (i - 1))
                     = Inr (bs ! i)"
    by auto
  have bs: "state_beliefs out = bs" using out by (simp add: concatenate_over_time_def)
  have "t < length (H dfb) \<and> t < length (R dfb) \<and>
            (\<exists>sp. (if t = 0 then sp = sp0
                   else t - 1 < length (F dfb) \<and> t - 1 < length (Q dfb) \<and>
                        (\<exists>sb. update (family kf) (state_beliefs out ! (t - 1))
                                 (observations_at inp (t - 1)) = Inr sb \<and>
                              predict (family kf) sb (F dfb ! (t - 1)) (Q dfb ! (t - 1)) = Inr sp)) \<and>
                  compute_measurement (family kf) sp (H dfb ! t) (R dfb ! t)
                    = Inr (state_beliefs out ! t))" if "t < T" for t
  proof -
    from that steps have "forward_step (family kf) dfb inp t (if t = 0 then sp0 else bs ! (t - 1))
                     = Inr (bs ! t)" by blast
    then show ?thesis
      unfolding forward_step_Inr bs by (cases "t = 0") auto
  qed
  moreover have "length (state_beliefs out) = T" using len bs by simp
  ultimately show ?thesis by blast
qed

theorem forward_builds_beliefs_witness:
  "forward demo_filter demo_input None no_kwargs = Inr demo_states \<and>
   length (state_beliefs demo_states) = 2 \<and>
   compute_measurement (family demo_filter) demo_prior [[[1]]] [[[1]]] = Inr demo_belief0 \<and>
   (\<exists>sb sp. update (family demo_filter) demo_belief0 (observations_at demo_input 0) = Inr sb \<and>
            predict (family demo_filter) sb [[[2]]] [[[1]]] = Inr sp \<and>
            compute_measurement (family demo_filter) sp [[[1]]] [[[1]]] = Inr demo_belief1)"
proof -
  note w = forward_builds_beliefs [OF demo_forward demo_shape demo_design_built demo_initial]
  from w have "length (state_beliefs demo_states) = 2" by blast
  moreover from w [THEN conjunct2, rule_format, of 0]
  have "compute_measurement (family demo_filter) demo_prior [[[1]]] [[[1]]] = Inr demo_belief0"
    by (simp add: demo_design_for_batch_def demo_states_def)
  moreover from w [THEN conjunct2, rule_format, of 1]
  have "\<exists>sb sp. update (family demo_filter) demo_belief0 (observations_at demo_input 0) = Inr sb \<and>
            predict (family demo_filter) sb [[[2]]] [[[1]]] = Inr sp \<and>
            compute_measurement (family demo_filter) sp [[[1]]] [[[1]]] = Inr demo_belief1"
    by (simp add: demo_design_for_batch_def demo_states_def) blast
  ultimately show ?thesis using demo_forward by blast
qed

subsection \<open>\<open>forward\<close>: the measure check and the shape of the result\<close>

text \<open>
  C3, amended. For an input of shape (groups, timesteps, measures), \<open>forward\<close> raises its
  \<open>ValueError\<close> exactly when the measures dimension differs from the measure size of the
  design. On a matching input, if the design-for-batch holds the timesteps, \<open>forward\<close> either
  returns or passes on an exception raised inside the design or the belief operations.
  Whenever it returns, it returns exactly \<open>timesteps\<close> beliefs, and if the operations of the
  family keep the batch size, each belief has the batch size of the initial state
  prediction: of the given \<open>initial_state\<close>, whose batch size \<open>forward\<close> does not compare
  with \<open>groups\<close>, or of the belief built from the initial state of the design.
\<close>

theorem forward_measure_check:
  assumes "shape inp = (G, T, M)"
  shows "((\<exists>a b. forward kf inp init kw = Inl (Measure_size_error a b))
            \<longleftrightarrow> M \<noteq> measure_size (design kf)) \<and>
         (M \<noteq> measure_size (design kf) \<longrightarrow>
            forward kf inp init kw = Inl (Measure_size_error (measure_size (design kf)) (G, T, M))) \<and>
         (M = measure_size (design kf) \<longrightarrow>
            (\<forall>dfb. Design_for_batch (design kf) G T (kw\<lparr>kw_input := Some inp\<rparr>) = Inr dfb
                   \<longrightarrow> holds_timesteps dfb T) \<longrightarrow>
            (\<exists>out. forward kf inp init kw = Inr out) \<or>
            (\<exists>c. forward kf inp init kw = Inl (Collaborator_error c))) \<and>
         (\<forall>out. forward kf inp init kw = Inr out \<longrightarrow>
            length (state_beliefs out) = T \<and>
            (\<forall>dfb sp0.
               Design_for_batch (design kf) G T (kw\<lparr>kw_input := Some inp\<rparr>) = Inr dfb \<longrightarrow>
               initial_state_prediction (family kf) dfb G init = Inr sp0 \<longrightarrow>
               keeps_batch_size (family kf) \<longrightarrow>
               (\<forall>b\<in>set (state_beliefs out).
                  batch_size (family kf) b = batch_size (family kf) sp0)))"
proof (intro conjI)
  show "(\<exists>a b. forward kf inp init kw = Inl (Measure_size_error a b))
          \<longleftrightarrow> M \<noteq> measure_size (design kf)"
    unfolding forward_Inl_measure [OF assms] by simp
  show "M \<noteq> measure_size (design kf) \<longrightarrow>
          forward kf inp init kw = Inl (Measure_size_error (measure_size (design kf)) (G, T, M))"
    unfolding forward_Inl_measure [OF assms] by simp
  show "M = measure_size (design kf) \<longrightarrow>
            (\<forall>dfb. Design_for_batch (design kf) G T (kw\<lparr>kw_input := Some inp\<rparr>) = Inr dfb
                   \<longrightarrow> holds_timesteps dfb T) \<longrightarrow>
            (\<exists>out. forward kf inp init kw = Inr out) \<or>
            (\<exists>c. forward kf inp init kw = Inl (Collaborator_error c))"
  proof (intro impI)
    assume m: "M = measure_size (design kf)"
      and h: "\<forall>dfb. Design_for_batch (design kf) G T (kw\<lparr>kw_input := Some inp\<rparr>) = Inr dfb
                   \<longrightarrow> holds_timesteps dfb T"
    show "(\<exists>out. forward kf inp init kw = Inr out) \<or>
          (\<exists>c. forward kf inp init kw = Inl (Collaborator_error c))"
    proof (cases "forward kf inp init kw")
      case (Inl e)
      from forward_Inl_collaborator [OF Inl assms m h] Inl show ?thesis by blast
    next
      case (Inr out)
      then show ?thesis by blast
    qed
  qed
  show "\<forall>out. forward kf inp init kw = Inr out \<longrightarrow>
            length (state_beliefs out) = T \<and>
            (\<forall>dfb sp0.
               Design_for_batch (design kf) G T (kw\<lparr>kw_input := Some inp\<rparr>) = Inr dfb \<longrightarrow>
               initial_state_prediction (family kf) dfb G init = Inr sp0 \<longrightarrow>
               keeps_batch_size (family kf) \<longrightarrow>
               (\<forall>b\<in>set (state_beliefs out).
                  batch_size (family kf) b = batch_size (family kf) sp0))"
  proof (intro allI impI conjI)
    fix out assume out: "forward kf inp init kw = Inr out"
    from forward_Inr [OF out assms] obtain dfb sp0 bs where
      d: "Design_for_batch (design kf) G T (kw\<lparr>kw_input := Some inp\<rparr>) = Inr dfb" and
      i: "initial_state_prediction (family kf) dfb G init = Inr sp0" and
      loop: "forward_loop (family kf) dfb inp [0..<T] sp0 [] = Inr bs" and
      o: "out = concatenate_over_time bs (kw_start_datetimes kw)"
      by blast
    from forward_loop_Inr [OF loop] o show "length (state_beliefs out) = T"
      by (auto simp: concatenate_over_time_def)
    fix dfb' sp0'
    assume "Design_for_batch (design kf) G T (kw\<lparr>kw_input := Some inp\<rparr>) = Inr dfb'"
      and "initial_state_prediction (family kf) dfb' G init = Inr sp0'"
      and k: "keeps_batch_size (family kf)"
    with d i have same: "dfb' = dfb" "sp0' = sp0" by simp_all
    from forward_loop_batch [OF k loop refl] o
    show "\<forall>b\<in>set (state_beliefs out). batch_size (family kf) b = batch_size (family kf) sp0'"
      by (simp add: concatenate_over_time_def same)
  qed
qed

text \<open>
  The claim as stated fails in both halves of its second part. With a matching input of
  three groups and an \<open>initial_state\<close> of one group, over a design built for one group,
  \<open>forward\<close> returns one belief of batch size 1, not 3. With a matching input, the filter
  without noise raises the error of the matrix inverse in \<open>update\<close>, and the filter whose
  design fails raises the error of the design: \<open>forward\<close> does not return.
\<close>

theorem forward_measure_check_counterexample:
  "shape three_group_input = (3, 1, 1) \<and> measure_size (design broadcast_filter) = 1 \<and>
   batch_size (family broadcast_filter) given_state = 1 \<and>
   map_sum id (\<lambda>s. map (batch_size (family broadcast_filter)) (state_beliefs s))
     (forward broadcast_filter three_group_input (Some given_state) no_kwargs) = Inr [1] \<and>
   shape demo_input = (1, 2, 1) \<and> measure_size (design zero_noise_filter) = 1 \<and>
   forward zero_noise_filter demo_input None no_kwargs = Inl (Collaborator_error Singular_matrix) \<and>
   measure_size (design failing_filter) = 1 \<and>
   forward failing_filter demo_input None no_kwargs = Inl (Collaborator_error Shape_error)"
  by code_simp

theorem forward_measure_check_witness:
  "forward demo_filter demo_input None no_kwargs = Inr demo_states \<and>
   length (state_beliefs demo_states) = 2 \<and>
   list_all (\<lambda>b. batch_size (family demo_filter) b = 1) (state_beliefs demo_states) \<and>
   forward demo_filter wide_input None no_kwargs = Inl (Measure_size_error 1 (1, 2, 2))"
proof -
  have k: "keeps_batch_size (family demo_filter)"
    by (simp add: demo_filter_def Gaussian_keeps_batch_size)
  have b: "batch_size (family demo_filter) demo_prior = 1"
    by (simp add: demo_filter_def Gaussian_def demo_prior_def)
  note w = forward_measure_check [OF demo_shape, of demo_filter None no_kwargs]
  from w demo_forward have "length (state_beliefs demo_states) = 2" by blast
  moreover from w demo_forward demo_design_built demo_initial k
  have "\<forall>b\<in>set (state_beliefs demo_states).
          batch_size (family demo_filter) b = batch_size (family demo_filter) demo_prior"
    by blast
  with b have "list_all (\<lambda>b. batch_size (family demo_filter) b = 1) (state_beliefs demo_states)"
    by (simp add: list_all_iff)
  moreover have "shape wide_input = (1, 2, 2)" by (simp add: wide_input_def)
  from forward_measure_check [OF this, of demo_filter None no_kwargs]
  have "forward demo_filter wide_input None no_kwargs = Inl (Measure_size_error 1 (1, 2, 2))"
    by (simp add: demo_filter_def demo_design_def)
  ultimately show ?thesis using demo_forward by blast
qed

subsection \<open>\<open>forward\<close>: a given initial state\<close>

lemma Gaussian_measurement_keeps_state: "measurement_keeps_state (Gaussian sampler)"
  unfolding measurement_keeps_state_def Gaussian_def
  by (auto dest: gaussian_compute_measurement_state)

text \<open>
  C10. When \<open>forward\<close> is given an initial state \<open>s\<close> and returns for an input of at least
  one timestep, the first belief is \<open>s\<close> with the measurement computed from \<open>H[0]\<close> and
  \<open>R[0]\<close>: no \<open>update\<close> and no \<open>predict\<close> comes before it, so it has the means and the
  covariances of \<open>s\<close> whenever \<open>compute_measurement\<close> leaves them as they are. With a second
  timestep, the observations at timestep 0 enter through the \<open>update\<close> of the first belief
  that builds the second.
\<close>

theorem forward_initial_state:
  assumes "forward kf inp (Some s) kw = Inr out"
    and "shape inp = (G, T, M)"
    and "Design_for_batch (design kf) G T (kw\<lparr>kw_input := Some inp\<rparr>) = Inr dfb"
    and "0 < T"
  shows "compute_measurement (family kf) s (H dfb ! 0) (R dfb ! 0) = Inr (state_beliefs out ! 0) \<and>
         (measurement_keeps_state (family kf) \<longrightarrow>
            means (family kf) (state_beliefs out ! 0) = means (family kf) s \<and>
            covs (family kf) (state_beliefs out ! 0) = covs (family kf) s) \<and>
         (1 < T \<longrightarrow>
            (\<exists>sb sp. update (family kf) (state_beliefs out ! 0) (observations_at inp 0) = Inr sb \<and>
                     predict (family kf) sb (F dfb ! 0) (Q dfb ! 0) = Inr sp \<and>
                     compute_measurement (family kf) sp (H dfb ! 1) (R dfb ! 1)
                       = Inr (state_beliefs out ! 1)))"
proof -
  have "initial_state_prediction (family kf) dfb G (Some s) = Inr s"
    by (simp add: initial_state_prediction_def)
  with forward_Inr [OF assms(1,2)] assms(3) obtain bs where
    loop: "forward_loop (family kf) dfb inp [0..<T] s [] = Inr bs" and
    out: "out = concatenate_over_time bs (kw_start_datetimes kw)"
    by auto
  have bs: "state_beliefs out = bs" using out by (simp add: concatenate_over_time_def)
  from forward_loop_Inr [OF loop] have
    steps: "\<forall>i<T. forward_step (family kf) dfb inp i (if i = 0 then s else bs ! (i - 1))
                     = Inr (bs ! i)"
    by auto
  from steps assms(4) have "forward_step (family kf) dfb inp 0 s = Inr (bs ! 0)" by force
  then have first: "compute_measurement (family kf) s (H dfb ! 0) (R dfb ! 0) = Inr (bs ! 0)"
    unfolding forward_step_Inr by simp
  then have kept: "measurement_keeps_state (family kf) \<longrightarrow>
            means (family kf) (bs ! 0) = means (family kf) s \<and>
            covs (family kf) (bs ! 0) = covs (family kf) s"
    unfolding measurement_keeps_state_def by blast
  have second: "\<exists>sb sp. update (family kf) (bs ! 0) (observations_at inp 0) = Inr sb \<and>
                     predict (family kf) sb (F dfb ! 0) (Q dfb ! 0) = Inr sp \<and>
                     compute_measurement (family kf) sp (H dfb ! 1) (R dfb ! 1) = Inr (bs ! 1)"
    if "1 < T"
  proof -
    from steps that have "forward_step (family kf) dfb inp 1 (bs ! 0) = Inr (bs ! 1)" by force
    then show ?thesis unfolding forward_step_Inr by auto
  qed
  from first kept second show ?thesis unfolding bs by blast
qed

lemma given_forward: "forward demo_filter demo_input (Some given_state) no_kwargs = Inr given_states"
  by code_simp

theorem forward_initial_state_witness:
  "forward demo_filter demo_input (Some given_state) no_kwargs = Inr given_states \<and>
   means (family demo_filter) (state_beliefs given_states ! 0) = [[5]] \<and>
   covs (family demo_filter) (state_beliefs given_states ! 0) = [[[2]]] \<and>
   (\<exists>sb sp. update (family demo_filter) (state_beliefs given_states ! 0)
               (observations_at demo_input 0) = Inr sb \<and>
            predict (family demo_filter) sb [[[2]]] [[[1]]] = Inr sp \<and>
            compute_measurement (family demo_filter) sp [[[1]]] [[[1]]]
              = Inr (state_beliefs given_states ! 1))"
proof -
  have k: "measurement_keeps_state (family demo_filter)"
    by (simp add: demo_filter_def Gaussian_measurement_keeps_state)
  have T: "(0::nat) < 2" "(1::nat) < 2" by simp_all
  note w = forward_initial_state [OF given_forward demo_shape demo_design_built T(1)]
  from w k have "means (family demo_filter) (state_beliefs given_states ! 0) = [[5]] \<and>
                 covs (family demo_filter) (state_beliefs given_states ! 0) = [[[2]]]"
    by (simp add: demo_filter_def Gaussian_def given_state_def)
  moreover from w T(2)
  have "\<exists>sb sp. update (family demo_filter) (state_beliefs given_states ! 0)
               (observations_at demo_input 0) = Inr sb \<and>
            predict (family demo_filter) sb [[[2]]] [[[1]]] = Inr sp \<and>
            compute_measurement (family demo_filter) sp [[[1]]] [[[1]]]
              = Inr (state_beliefs given_states ! 1)"
    by (simp add: demo_design_for_batch_def)
  ultimately show ?thesis using given_forward by blast
qed

subsection \<open>\<open>forward\<close>: which observations a belief depends on\<close>

lemma take_nth_eq:
  assumes "take n xs = take n ys" and "i < n"
  shows "xs ! i = ys ! i \<or> length xs \<le> i \<or> length ys \<le> i"
proof (cases "i < length xs \<and> i < length ys")
  case True
  with assms(2) have "xs ! i = take n xs ! i" "ys ! i = take n ys ! i" by simp_all
  with assms(1) show ?thesis by simp
next
  case False
  then show ?thesis by auto
qed

lemma forward_step_agree_designs:
  assumes "forward_step fam d1 x t sp = Inr a" and "forward_step fam d2 y t sp = Inr b"
    and "0 < t \<longrightarrow> observations_at x (t - 1) = observations_at y (t - 1)"
    and "0 < t \<longrightarrow> F d1 ! (t - 1) = F d2 ! (t - 1) \<and> Q d1 ! (t - 1) = Q d2 ! (t - 1)"
    and "H d1 ! t = H d2 ! t" and "R d1 ! t = R d2 ! t"
  shows "a = b"
  using assms unfolding forward_step_Inr by (cases "t = 0") auto

lemma forward_beliefs_agree_designs:
  assumes x: "forward_loop fam d1 x [0..<Tx] sp0 [] = Inr bx"
    and y: "forward_loop fam d2 y [0..<Ty] sp0 [] = Inr bz"
    and d: "designs_agree_upto d1 d2 t"
    and agree: "\<forall>i<t. observations_at x i = observations_at y i"
    and t: "t < Tx" "t < Ty"
  shows "bx ! t = bz ! t"
proof -
  from forward_loop_Inr [OF x] have
    sx: "\<forall>i<Tx. forward_step fam d1 x i (if i = 0 then sp0 else bx ! (i - 1)) = Inr (bx ! i)"
    by auto
  from forward_loop_Inr [OF y] have
    sy: "\<forall>i<Ty. forward_step fam d2 y i (if i = 0 then sp0 else bz ! (i - 1)) = Inr (bz ! i)"
    by auto
  have "i \<le> t \<Longrightarrow> bx ! i = bz ! i" for i
  proof (induction i)
    case 0
    from t have "0 < Tx" "0 < Ty" by simp_all
    with sx sy have
      "forward_step fam d1 x 0 (if (0::nat) = 0 then sp0 else bx ! (0 - 1)) = Inr (bx ! 0)"
      "forward_step fam d2 y 0 (if (0::nat) = 0 then sp0 else bz ! (0 - 1)) = Inr (bz ! 0)"
      by blast+
    then have a: "forward_step fam d1 x 0 sp0 = Inr (bx ! 0)"
      and b: "forward_step fam d2 y 0 sp0 = Inr (bz ! 0)"
      by simp_all
    from a b have len: "0 < length (H d1)" "0 < length (H d2)" "0 < length (R d1)" "0 < length (R d2)"
      unfolding forward_step_Inr by simp_all
    from d have "take (Suc t) (H d1) = take (Suc t) (H d2)" "take (Suc t) (R d1) = take (Suc t) (R d2)"
      unfolding designs_agree_upto_def by simp_all
    with take_nth_eq [of "Suc t" "H d1" "H d2" 0] take_nth_eq [of "Suc t" "R d1" "R d2" 0] len
    have "H d1 ! 0 = H d2 ! 0" "R d1 ! 0 = R d2 ! 0" by auto
    with a b show ?case by (intro forward_step_agree_designs [of fam d1 x 0 sp0 _ d2 y]) auto
  next
    case (Suc i)
    then have prev: "bx ! i = bz ! i" and i: "Suc i \<le> t" by simp_all
    from t i have "Suc i < Tx" "Suc i < Ty" by simp_all
    with sx sy have
      "forward_step fam d1 x (Suc i) (if Suc i = 0 then sp0 else bx ! (Suc i - 1)) = Inr (bx ! Suc i)"
      "forward_step fam d2 y (Suc i) (if Suc i = 0 then sp0 else bz ! (Suc i - 1)) = Inr (bz ! Suc i)"
      by blast+
    then have a: "forward_step fam d1 x (Suc i) (bx ! i) = Inr (bx ! Suc i)"
      and b: "forward_step fam d2 y (Suc i) (bz ! i) = Inr (bz ! Suc i)"
      by simp_all
    from a b have len:
      "Suc i < length (H d1)" "Suc i < length (H d2)" "Suc i < length (R d1)" "Suc i < length (R d2)"
      "i < length (F d1)" "i < length (F d2)" "i < length (Q d1)" "i < length (Q d2)"
      unfolding forward_step_Inr by simp_all
    from d have tk: "take (Suc t) (H d1) = take (Suc t) (H d2)"
      "take (Suc t) (R d1) = take (Suc t) (R d2)"
      "take t (F d1) = take t (F d2)" "take t (Q d1) = take t (Q d2)"
      unfolding designs_agree_upto_def by simp_all
    from i have lt: "Suc i < Suc t" "i < t" by simp_all
    from take_nth_eq [OF tk(1) lt(1)] take_nth_eq [OF tk(2) lt(1)]
         take_nth_eq [OF tk(3) lt(2)] take_nth_eq [OF tk(4) lt(2)] len
    have eqs: "H d1 ! Suc i = H d2 ! Suc i" "R d1 ! Suc i = R d2 ! Suc i"
      "F d1 ! i = F d2 ! i" "Q d1 ! i = Q d2 ! i"
      by auto
    from agree lt(2) have obs: "observations_at x i = observations_at y i" by blast
    from a b [folded prev] eqs obs show ?case
      by (intro forward_step_agree_designs [of fam d1 x "Suc i" "bx ! i" _ d2 y]) auto
  qed
  then show ?thesis by simp
qed

text \<open>
  C4, amended. \<open>forward\<close> stores the whole input under the keyword \<open>input\<close> and hands it to
  \<open>Design.for_batch\<close>, together with the number of timesteps, so the matrices of the batch
  design may depend on every observation. For two inputs, of any shapes, with the same
  keyword arguments and initial state, for which the two designs-for-batch yield the same
  initial state prediction: if the designs agree on \<open>F\<close>, \<open>Q\<close> before \<open>t\<close> and on \<open>H\<close>, \<open>R\<close> up
  to \<open>t\<close>, and the inputs agree on the observations at all timesteps strictly before \<open>t\<close>,
  the beliefs at index \<open>t\<close> are equal; and if the inputs have the same number of timesteps,
  the designs agree at every timestep and the inputs agree everywhere but at the final
  timestep, the results are equal.
\<close>

theorem forward_past_observations_only:
  assumes "forward kf x init kw = Inr out_x" and "forward kf y init kw = Inr out_y"
    and "shape x = (Gx, Tx, Mx)" and "shape y = (Gy, Ty, My)"
    and "Design_for_batch (design kf) Gx Tx (kw\<lparr>kw_input := Some x\<rparr>) = Inr dx"
    and "Design_for_batch (design kf) Gy Ty (kw\<lparr>kw_input := Some y\<rparr>) = Inr dy"
    and "initial_state_prediction (family kf) dx Gx init
           = initial_state_prediction (family kf) dy Gy init"
  shows "(\<forall>t. t < Tx \<and> t < Ty \<and> designs_agree_upto dx dy t \<and>
              (\<forall>i<t. observations_at x i = observations_at y i)
              \<longrightarrow> state_beliefs out_x ! t = state_beliefs out_y ! t) \<and>
         (Tx = Ty \<and> (\<forall>t<Tx. designs_agree_upto dx dy t) \<and>
              (\<forall>i. Suc i < Tx \<longrightarrow> observations_at x i = observations_at y i)
              \<longrightarrow> out_x = out_y)"
proof -
  from forward_Inr [OF assms(1,3)] assms(5) obtain sx bx where
    ix: "initial_state_prediction (family kf) dx Gx init = Inr sx" and
    lx: "forward_loop (family kf) dx x [0..<Tx] sx [] = Inr bx" and
    ox: "out_x = concatenate_over_time bx (kw_start_datetimes kw)"
    by auto
  from forward_Inr [OF assms(2,4)] assms(6) obtain sy bz where
    iy: "initial_state_prediction (family kf) dy Gy init = Inr sy" and
    ly: "forward_loop (family kf) dy y [0..<Ty] sy [] = Inr bz" and
    oy: "out_y = concatenate_over_time bz (kw_start_datetimes kw)"
    by auto
  from ix iy assms(7) have s: "sy = sx" by simp
  have bs: "state_beliefs out_x = bx" "state_beliefs out_y = bz"
    using ox oy by (simp_all add: concatenate_over_time_def)
  have at: "bx ! t = bz ! t"
    if "t < Tx" "t < Ty" "designs_agree_upto dx dy t"
      "\<forall>i<t. observations_at x i = observations_at y i" for t
    using forward_beliefs_agree_designs [OF lx ly [unfolded s] that(3,4) that(1,2)] .
  have "out_x = out_y"
    if "Tx = Ty" "\<forall>t<Tx. designs_agree_upto dx dy t"
      "\<forall>i. Suc i < Tx \<longrightarrow> observations_at x i = observations_at y i"
  proof -
    from forward_loop_Inr [OF lx] forward_loop_Inr [OF ly] that(1)
    have len: "length bx = Tx" "length bz = Tx" by auto
    have "bx ! t = bz ! t" if "t < Tx" for t
    proof -
      from that \<open>\<forall>i. Suc i < Tx \<longrightarrow> observations_at x i = observations_at y i\<close>
      have "\<forall>i<t. observations_at x i = observations_at y i" by auto
      with at [of t] that \<open>Tx = Ty\<close> \<open>\<forall>t<Tx. designs_agree_upto dx dy t\<close>
      show ?thesis by blast
    qed
    with len have "bx = bz" by (intro nth_equalityI) auto
    with ox oy show ?thesis by simp
  qed
  with at bs show ?thesis by auto
qed

text \<open>
  The claim without the hypothesis on the design fails: the two inputs below agree at
  timestep 0 and differ at the final timestep 1, and the filter whose design reads the
  \<open>input\<close> keyword returns beliefs at index 1 with the means 10 and 14.
\<close>

theorem forward_past_observations_only_counterexample:
  "shape demo_input = shape other_input \<and>
   observations_at demo_input 0 = observations_at other_input 0 \<and>
   map_sum id (\<lambda>s. means (family input_reading_filter) (state_beliefs s ! 1))
     (forward input_reading_filter demo_input None no_kwargs) = Inr [[10]] \<and>
   map_sum id (\<lambda>s. means (family input_reading_filter) (state_beliefs s ! 1))
     (forward input_reading_filter other_input None no_kwargs) = Inr [[14]] \<and>
   map_sum id (\<lambda>s. state_beliefs s ! 1) (forward input_reading_filter demo_input None no_kwargs)
     \<noteq> map_sum id (\<lambda>s. state_beliefs s ! 1)
         (forward input_reading_filter other_input None no_kwargs)"
  by code_simp

lemma long_forward: "forward demo_filter long_input None no_kwargs = Inr long_states"
  by code_simp

lemma other_forward: "forward demo_filter other_input None no_kwargs = Inr demo_states"
  by code_simp

theorem forward_past_observations_only_witness:
  "forward demo_filter demo_input None no_kwargs = Inr demo_states \<and>
   forward demo_filter long_input None no_kwargs = Inr long_states \<and>
   F (demo_design_for_batch 1 2) \<noteq> F (demo_design_for_batch 1 3) \<and>
   designs_agree_upto (demo_design_for_batch 1 2) (demo_design_for_batch 1 3) 1 \<and>
   observations_at demo_input 0 = observations_at long_input 0 \<and>
   state_beliefs demo_states ! 1 = state_beliefs long_states ! 1 \<and>
   observations_at demo_input 0 = observations_at other_input 0 \<and>
   observations_at demo_input 1 \<noteq> observations_at other_input 1 \<and>
   forward demo_filter other_input None no_kwargs = Inr demo_states \<and>
   state_beliefs demo_states ! 1 = demo_belief1"
proof -
  have o: "observations_at demo_input 0 = observations_at long_input 0"
    "observations_at demo_input 0 = observations_at other_input 0"
    "observations_at demo_input 1 \<noteq> observations_at other_input 1"
    by code_simp+
  have f: "F (demo_design_for_batch 1 2) \<noteq> F (demo_design_for_batch 1 3)"
    by code_simp
  have d: "designs_agree_upto (demo_design_for_batch 1 2) (demo_design_for_batch 1 3) 1"
    by code_simp
  have sh: "shape long_input = (1, 3, 1)" "shape other_input = (1, 2, 1)"
    by (simp_all add: long_input_def other_input_def)
  have i: "initial_state_prediction (family demo_filter) (demo_design_for_batch 1 2) 1 None
             = initial_state_prediction (family demo_filter) (demo_design_for_batch 1 3) 1 None"
    by code_simp
  note w = forward_past_observations_only [OF demo_forward long_forward demo_shape sh(1)
             demo_design_built demo_design_built i]
  from w [THEN conjunct1, rule_format, of 1] d o(1)
  have l: "state_beliefs demo_states ! 1 = state_beliefs long_states ! 1" by simp
  have same: "\<forall>t<2. designs_agree_upto (demo_design_for_batch 1 2) (demo_design_for_batch 1 2) t"
    by (simp add: designs_agree_upto_def)
  from o(2) have last: "\<forall>i. Suc i < 2 \<longrightarrow> observations_at demo_input i = observations_at other_input i"
    by (simp add: numeral_2_eq_2)
  note w' = forward_past_observations_only [OF demo_forward other_forward demo_shape sh(2)
             demo_design_built demo_design_built refl]
  from w' [THEN conjunct2] same last have "demo_states = demo_states" by blast
  then have "state_beliefs demo_states ! 1 = demo_belief1" by (simp add: demo_states_def)
  with o f d l demo_forward long_forward other_forward show ?thesis by blast
qed

subsection \<open>\<open>forecast\<close>: how the beliefs are built\<close>

lemma forecast_step_Inr:
  "forecast_step fam dfb t sp = Inr sp' \<longleftrightarrow>
     t < length (H dfb) \<and> t < length (R dfb) \<and>
     (\<exists>sp1. (if t = 0 then sp1 = sp
             else t - 1 < length (F dfb) \<and> t - 1 < length (Q dfb) \<and>
                  predict fam sp (F dfb ! (t - 1)) (Q dfb ! (t - 1)) = Inr sp1) \<and>
            compute_measurement fam sp1 (H dfb ! t) (R dfb ! t) = Inr sp')"
  unfolding forecast_step_def
  by (auto simp: bind_result_Inr collaborator_Inr index_Inr)

lemma forecast_loop_Inr:
  "forecast_loop fam dfb ts sp acc = Inr out \<Longrightarrow>
     \<exists>new. out = acc @ new \<and> length new = length ts \<and>
       (\<forall>i<length ts. forecast_step fam dfb (ts ! i) (if i = 0 then sp else new ! (i - 1))
                       = Inr (new ! i))"
proof (induction ts arbitrary: sp acc)
  case Nil
  then show ?case by simp
next
  case (Cons t ts)
  from Cons.prems obtain sp1 where
    step: "forecast_step fam dfb t sp = Inr sp1" and
    rest: "forecast_loop fam dfb ts sp1 (acc @ [sp1]) = Inr out"
    by (auto split: sum.splits)
  from Cons.IH [OF rest] obtain new where
    out: "out = (acc @ [sp1]) @ new" and len: "length new = length ts" and
    ih: "\<forall>i<length ts. forecast_step fam dfb (ts ! i) (if i = 0 then sp1 else new ! (i - 1))
                       = Inr (new ! i)"
    by blast
  have "\<forall>i<length (t # ts).
          forecast_step fam dfb ((t # ts) ! i) (if i = 0 then sp else (sp1 # new) ! (i - 1))
          = Inr ((sp1 # new) ! i)"
  proof (intro allI impI)
    fix i assume i: "i < length (t # ts)"
    show "forecast_step fam dfb ((t # ts) ! i) (if i = 0 then sp else (sp1 # new) ! (i - 1))
          = Inr ((sp1 # new) ! i)"
    proof (cases i)
      case 0
      then show ?thesis using step by simp
    next
      case (Suc j)
      with i have "j < length ts" by simp
      with ih have "forecast_step fam dfb (ts ! j) (if j = 0 then sp1 else new ! (j - 1))
                     = Inr (new ! j)" by blast
      then show ?thesis using Suc by (cases j) simp_all
    qed
  qed
  moreover have "out = acc @ (sp1 # new)" using out by simp
  moreover have "length (sp1 # new) = length (t # ts)" using len by simp
  ultimately show ?case by blast
qed

lemma forecast_from_None:
  "forecast_from fam states None kw = Inr (seed, kw') \<longleftrightarrow>
     state_beliefs states \<noteq> [] \<and> seed = last (state_beliefs states) \<and> kw' = kw"
  by (auto simp: forecast_from_def last_prediction_def bind_result_def split: list.splits)

lemma forecast_Inr:
  assumes "forecast kf states h d kw = Inr out"
  shows "0 < h \<and>
         (\<exists>seed kw' dfb fs.
            forecast_from (family kf) states d kw = Inr (seed, kw') \<and>
            Design_for_batch (design kf) (batch_size (family kf) seed) (nat h) kw' = Inr dfb \<and>
            forecast_loop (family kf) dfb [0..<nat h] seed [] = Inr fs \<and>
            out = concatenate_over_time fs d)"
  using assms
  by (auto simp: forecast_def bind_result_Inr collaborator_Inr prog_same split: if_splits)

text \<open>
  C2, amended. When \<open>forecast(states, horizon=h)\<close> returns, \<open>h > 0\<close> and it returns exactly
  \<open>h\<close> beliefs. The first is the last belief of \<open>states\<close> with the measurement computed from
  \<open>H[0]\<close> and \<open>R[0]\<close> of the forecast design: no \<open>predict\<close> and no \<open>update\<close> is applied, and
  its mean is the mean of that last belief. Each later belief, at index \<open>t > 0\<close>, is one
  \<open>predict\<close> step with \<open>F[t - 1]\<close> and \<open>Q[t - 1]\<close> from the returned belief before it,
  with no \<open>update\<close>; so the second belief, not the first, has the mean of a one-step
  prediction from the seed.
\<close>

theorem forecast_beliefs:
  assumes "forecast kf states h None kw = Inr out"
    and "Design_for_batch (design kf) (batch_size (family kf) (last (state_beliefs states)))
           (nat h) kw = Inr dfb"
  shows "length (state_beliefs out) = nat h \<and> 0 < h \<and>
         compute_measurement (family kf) (last (state_beliefs states)) (H dfb ! 0) (R dfb ! 0)
           = Inr (state_beliefs out ! 0) \<and>
         (measurement_keeps_state (family kf) \<longrightarrow>
            means (family kf) (state_beliefs out ! 0)
              = means (family kf) (last (state_beliefs states))) \<and>
         (\<forall>t. 0 < t \<and> t < nat h \<longrightarrow>
            (\<exists>sp. predict (family kf) (state_beliefs out ! (t - 1)) (F dfb ! (t - 1)) (Q dfb ! (t - 1))
                    = Inr sp \<and>
                  compute_measurement (family kf) sp (H dfb ! t) (R dfb ! t)
                    = Inr (state_beliefs out ! t) \<and>
                  (measurement_keeps_state (family kf) \<longrightarrow>
                     means (family kf) (state_beliefs out ! t) = means (family kf) sp)))"
proof -
  from forecast_Inr [OF assms(1)] assms(2) obtain fs where
    h: "0 < h" and
    loop: "forecast_loop (family kf) dfb [0..<nat h] (last (state_beliefs states)) [] = Inr fs" and
    out: "out = concatenate_over_time fs None"
    by (auto simp: forecast_from_None)
  have bs: "state_beliefs out = fs" using out by (simp add: concatenate_over_time_def)
  from forecast_loop_Inr [OF loop] have
    len: "length fs = nat h" and
    steps: "\<forall>i<nat h. forecast_step (family kf) dfb i
                        (if i = 0 then last (state_beliefs states) else fs ! (i - 1))
                      = Inr (fs ! i)"
    by auto
  from h have "0 < nat h" by simp
  with steps have "forecast_step (family kf) dfb 0
                     (if (0::nat) = 0 then last (state_beliefs states) else fs ! (0 - 1))
                   = Inr (fs ! 0)"
    by blast
  then have "forecast_step (family kf) dfb 0 (last (state_beliefs states)) = Inr (fs ! 0)"
    by simp
  then have first: "compute_measurement (family kf) (last (state_beliefs states))
                      (H dfb ! 0) (R dfb ! 0) = Inr (fs ! 0)"
    unfolding forecast_step_Inr by simp
  then have first_mean: "measurement_keeps_state (family kf) \<longrightarrow>
      means (family kf) (fs ! 0) = means (family kf) (last (state_beliefs states))"
    unfolding measurement_keeps_state_def by blast
  have later: "\<exists>sp. predict (family kf) (fs ! (t - 1)) (F dfb ! (t - 1)) (Q dfb ! (t - 1)) = Inr sp \<and>
                  compute_measurement (family kf) sp (H dfb ! t) (R dfb ! t) = Inr (fs ! t) \<and>
                  (measurement_keeps_state (family kf) \<longrightarrow>
                     means (family kf) (fs ! t) = means (family kf) sp)"
    if "0 < t" "t < nat h" for t
  proof -
    from steps that have "forecast_step (family kf) dfb t (fs ! (t - 1)) = Inr (fs ! t)" by auto
    with that(1) obtain sp where
      p: "predict (family kf) (fs ! (t - 1)) (F dfb ! (t - 1)) (Q dfb ! (t - 1)) = Inr sp" and
      c: "compute_measurement (family kf) sp (H dfb ! t) (R dfb ! t) = Inr (fs ! t)"
      unfolding forecast_step_Inr by auto
    from c have "measurement_keeps_state (family kf) \<longrightarrow>
                   means (family kf) (fs ! t) = means (family kf) sp"
      unfolding measurement_keeps_state_def by blast
    with p c show ?thesis by blast
  qed
  from len h first first_mean later show ?thesis unfolding bs by blast
qed

text \<open>
  The claim as stated fails: after a forward run of the example filter, the first of four
  forecast beliefs has the mean 4, the mean of the last forward belief, while one
  \<open>predict\<close> step from that belief with \<open>F[0]\<close> and \<open>Q[0]\<close> has the mean 8.
\<close>

theorem forecast_beliefs_counterexample:
  "forward demo_filter demo_input None no_kwargs = Inr demo_states \<and>
   map_sum id (\<lambda>s. (length (state_beliefs s), means (family demo_filter) (state_beliefs s ! 0)))
     (forecast demo_filter demo_states 4 None no_kwargs) = Inr (4, [[4]]) \<and>
   map_sum id (means (family demo_filter))
     (predict (family demo_filter) (last (state_beliefs demo_states))
        (F (demo_design_for_batch 1 4) ! 0) (Q (demo_design_for_batch 1 4) ! 0)) = Inr [[8]] \<and>
   map_sum id (\<lambda>s. means (family demo_filter) (state_beliefs s ! 0))
     (forecast demo_filter demo_states 4 None no_kwargs)
     \<noteq> map_sum Collaborator_error (means (family demo_filter))
         (predict (family demo_filter) (last (state_beliefs demo_states))
            (F (demo_design_for_batch 1 4) ! 0) (Q (demo_design_for_batch 1 4) ! 0))"
  by code_simp

lemma demo_forecast_run: "forecast demo_filter demo_states 2 None no_kwargs = Inr demo_forecast"
  by code_simp

theorem forecast_beliefs_witness:
  "forecast demo_filter demo_states 2 None no_kwargs = Inr demo_forecast \<and>
   length (state_beliefs demo_forecast) = 2 \<and>
   means (family demo_filter) (state_beliefs demo_forecast ! 0)
     = means (family demo_filter) (last (state_beliefs demo_states)) \<and>
   (\<exists>sp. predict (family demo_filter) (state_beliefs demo_forecast ! 0) [[[2]]] [[[1]]] = Inr sp \<and>
         means (family demo_filter) (state_beliefs demo_forecast ! 1) = means (family demo_filter) sp)"
proof -
  have k: "measurement_keeps_state (family demo_filter)"
    by (simp add: demo_filter_def Gaussian_measurement_keeps_state)
  note w = forecast_beliefs [OF demo_forecast_run demo_design_built]
  from w have "length (state_beliefs demo_forecast) = 2" by simp
  moreover from w k
  have "means (family demo_filter) (state_beliefs demo_forecast ! 0)
          = means (family demo_filter) (last (state_beliefs demo_states))"
    by blast
  moreover have "(0::nat) < 1 \<and> 1 < nat 2" by simp
  from w [THEN conjunct2, THEN conjunct2, THEN conjunct2, THEN conjunct2, rule_format, OF this] k
  have "\<exists>sp. predict (family demo_filter) (state_beliefs demo_forecast ! (1 - 1))
               (F (demo_design_for_batch (batch_size (family demo_filter)
                     (last (state_beliefs demo_states))) (nat 2)) ! (1 - 1))
               (Q (demo_design_for_batch (batch_size (family demo_filter)
                     (last (state_beliefs demo_states))) (nat 2)) ! (1 - 1)) = Inr sp \<and>
         means (family demo_filter) (state_beliefs demo_forecast ! 1) = means (family demo_filter) sp"
    by blast
  then have "\<exists>sp. predict (family demo_filter) (state_beliefs demo_forecast ! 0) [[[2]]] [[[1]]] = Inr sp \<and>
         means (family demo_filter) (state_beliefs demo_forecast ! 1) = means (family demo_filter) sp"
    by (simp add: demo_design_for_batch_def demo_filter_def Gaussian_def demo_states_def
          demo_belief1_def)
  ultimately show ?thesis using demo_forecast_run by blast
qed

subsection \<open>\<open>forecast\<close> and \<open>simulate\<close>: the assertion on the horizon\<close>

lemma forecast_step_Inl_kind:
  "forecast_step fam dfb t sp = Inl e \<Longrightarrow> e = Index_error \<or> (\<exists>c. e = Collaborator_error c)"
  by (auto simp: forecast_step_def bind_result_def collaborator_def index_def
           split: sum.splits if_splits)

lemma forecast_loop_Inl_kind:
  "forecast_loop fam dfb ts sp acc = Inl e \<Longrightarrow> e = Index_error \<or> (\<exists>c. e = Collaborator_error c)"
proof (induction ts arbitrary: sp acc)
  case Nil
  then show ?case by simp
next
  case (Cons t ts)
  then show ?case
    by (cases "forecast_step fam dfb t sp") (auto dest: forecast_step_Inl_kind)
qed

lemma forecast_from_Inl_kind:
  "forecast_from fam states d kw = Inl e \<Longrightarrow> e = Index_error \<or> (\<exists>c. e = Collaborator_error c)"
  by (auto simp: forecast_from_def last_prediction_def bind_result_def collaborator_def
           split: option.splits list.splits sum.splits)

lemma forecast_Inl_kind:
  "forecast kf states h d kw = Inl e \<Longrightarrow> 0 < h \<Longrightarrow> e = Index_error \<or> (\<exists>c. e = Collaborator_error c)"
  by (auto simp: forecast_def bind_result_def collaborator_def prog_same
           dest: forecast_from_Inl_kind forecast_loop_Inl_kind split: sum.splits prod.splits)

lemma simulate_Inl_kind:
  "simulate kf states h d kw = Inl e \<Longrightarrow> 0 < h \<Longrightarrow> e = Index_error \<or> (\<exists>c. e = Collaborator_error c)"
  by (auto simp: simulate_def bind_result_def collaborator_def
           dest: forecast_from_Inl_kind split: sum.splits prod.splits)

text \<open>
  C8. \<open>forecast\<close> and \<open>simulate\<close> fail with the assertion error exactly when the horizon is
  not positive, whatever the states, the keyword arguments and the design are: the
  assertion comes before the design is asked for a batch and before any belief is
  produced. For a positive horizon the assertion passes and the design is asked: when the
  forecast-from belief is found and \<open>Design.for_batch\<close> raises, that exception is the result.
\<close>

theorem horizon_assertion:
  "(forecast kf states h d kw = Inl Assertion_error \<longleftrightarrow> h \<le> 0) \<and>
   (simulate kf states h d kw = Inl Assertion_error \<longleftrightarrow> h \<le> 0) \<and>
   (0 < h \<longrightarrow>
      (\<forall>seed kw' c. forecast_from (family kf) states d kw = Inr (seed, kw') \<longrightarrow>
         Design_for_batch (design kf) (batch_size (family kf) seed) (nat h) kw' = Inl c \<longrightarrow>
         forecast kf states h d kw = Inl (Collaborator_error c) \<and>
         simulate kf states h d kw = Inl (Collaborator_error c)))"
proof (intro conjI)
  show "forecast kf states h d kw = Inl Assertion_error \<longleftrightarrow> h \<le> 0"
    using forecast_Inl_kind [of kf states h d kw Assertion_error]
    by (auto simp: forecast_def)
  show "simulate kf states h d kw = Inl Assertion_error \<longleftrightarrow> h \<le> 0"
    using simulate_Inl_kind [of kf states h d kw Assertion_error]
    by (auto simp: simulate_def)
  show "0 < h \<longrightarrow>
      (\<forall>seed kw' c. forecast_from (family kf) states d kw = Inr (seed, kw') \<longrightarrow>
         Design_for_batch (design kf) (batch_size (family kf) seed) (nat h) kw' = Inl c \<longrightarrow>
         forecast kf states h d kw = Inl (Collaborator_error c) \<and>
         simulate kf states h d kw = Inl (Collaborator_error c))"
    by (simp add: forecast_def simulate_def bind_result_def collaborator_def)
qed

theorem horizon_assertion_witness:
  "forecast failing_filter demo_states 0 None no_kwargs = Inl Assertion_error \<and>
   simulate failing_filter demo_states (- 1) None no_kwargs = Inl Assertion_error \<and>
   forecast failing_filter demo_states 4 None no_kwargs = Inl (Collaborator_error Shape_error) \<and>
   simulate failing_filter demo_states 4 None no_kwargs = Inl (Collaborator_error Shape_error)"
proof -
  have f: "forecast_from (family failing_filter) demo_states None no_kwargs
             = Inr (demo_belief1, no_kwargs)"
    by (simp add: forecast_from_None demo_states_def)
  have d: "Design_for_batch (design failing_filter)
             (batch_size (family failing_filter) demo_belief1) (nat 4) no_kwargs = Inl Shape_error"
    by (simp add: failing_filter_def)
  from horizon_assertion [of failing_filter demo_states 0 None no_kwargs]
  have "forecast failing_filter demo_states 0 None no_kwargs = Inl Assertion_error" by simp
  moreover from horizon_assertion [of failing_filter demo_states "- 1" None no_kwargs]
  have "simulate failing_filter demo_states (- 1) None no_kwargs = Inl Assertion_error" by simp
  moreover from horizon_assertion [of failing_filter demo_states 4 None no_kwargs] f d
  have "forecast failing_filter demo_states 4 None no_kwargs = Inl (Collaborator_error Shape_error) \<and>
        simulate failing_filter demo_states 4 None no_kwargs = Inl (Collaborator_error Shape_error)"
    by simp
  ultimately show ?thesis by blast
qed

subsection \<open>\<open>Process.__init__\<close>: the validation\<close>

lemma length_card_distinct: "length xs \<noteq> card (set xs) \<longleftrightarrow> \<not> distinct xs"
  using distinct_card [of xs] card_distinct [of xs] by auto

lemma validate_Inl:
  "(\<exists>e. validate cls elems = Inl e) \<longleftrightarrow>
     \<not> distinct elems \<or>
     set (cls_dynamic_state_elements cls elems) \<inter> set (cls_fixed_state_elements cls elems) \<noteq> {}"
  by (simp add: validate_def length_card_distinct)

lemma Process_init_unfold:
  "Process_init cls s i elems =
     (case validate cls elems of
        Inl e \<Rightarrow> Inl e
      | Inr u \<Rightarrow>
          Inr (Suc (Suc (Suc (next_ref s))),
               \<lparr>processes = (processes s)(Suc (Suc (Suc (next_ref s))) \<mapsto>
                    \<lparr>proc_id = i, state_elements = elems, transition_mat = next_ref s,
                     measure_mat = Suc (next_ref s), variance_multi_mat = Suc (Suc (next_ref s)),
                     batch_info = None\<rparr>),
                matrices = (matrices s)
                  (next_ref s \<mapsto> new_design_matrix TransitionMatrix (Some elems) elems,
                   Suc (next_ref s) \<mapsto> new_design_matrix MeasureMatrix None elems,
                   Suc (Suc (next_ref s)) \<mapsto>
                     new_design_matrix ProcessVarianceMultiplierMatrix (Some elems)
                       (cls_dynamic_state_elements cls elems)),
                next_ref = Suc (Suc (Suc (Suc (next_ref s))))\<rparr>))"
  by (simp add: Process_init_def alloc_matrix_def alloc_process_def Let_def split: sum.splits)

text \<open>
  C7. The constructor raises exactly when the state elements contain a duplicate name or
  the dynamic and the fixed state elements of the class have a name in common. Otherwise
  it returns the new process, which has the given id and state elements and satisfies both
  invariants: its state elements are distinct, and its dynamic and fixed state elements
  are disjoint.
\<close>

theorem Process_init_validates:
  "((\<exists>e. Process_init cls s i elems = Inl e) \<longleftrightarrow>
      \<not> distinct elems \<or>
      set (cls_dynamic_state_elements cls elems) \<inter> set (cls_fixed_state_elements cls elems) \<noteq> {}) \<and>
   (\<forall>r s'. Process_init cls s i elems = Inr (r, s') \<longrightarrow>
      (\<exists>p. processes s' r = Some p \<and> proc_id p = i \<and> state_elements p = elems \<and>
           distinct (state_elements p) \<and>
           set (cls_dynamic_state_elements cls (state_elements p))
             \<inter> set (cls_fixed_state_elements cls (state_elements p)) = {}))"
proof (cases "validate cls elems")
  case (Inl e)
  then have "\<exists>e. validate cls elems = Inl e" by blast
  then have "\<not> distinct elems \<or>
      set (cls_dynamic_state_elements cls elems) \<inter> set (cls_fixed_state_elements cls elems) \<noteq> {}"
    unfolding validate_Inl .
  with Inl show ?thesis by (simp add: Process_init_unfold)
next
  case (Inr u)
  then have "\<not> (\<exists>e. validate cls elems = Inl e)" by simp
  then have "distinct elems \<and>
      set (cls_dynamic_state_elements cls elems) \<inter> set (cls_fixed_state_elements cls elems) = {}"
    unfolding validate_Inl by simp
  with Inr show ?thesis by (auto simp: Process_init_unfold)
qed

theorem Process_init_validates_witness:
  "\<not> distinct [''position'', ''position''] \<and>
   (\<exists>e. Process_init Process empty_store ''level'' [''position'', ''position''] = Inl e) \<and>
   (\<exists>e. Process_init trend_class empty_store ''trend'' [''position'', ''velocity''] = Inl e) \<and>
   (\<exists>r s' p. Process_init Process empty_store ''trend'' [''position'', ''velocity''] = Inr (r, s') \<and>
             processes s' r = Some p \<and> state_elements p = [''position'', ''velocity''])"
proof -
  note a = Process_init_validates [of Process empty_store "''level''" "[''position'', ''position'']"]
  note b = Process_init_validates [of trend_class empty_store "''trend''" "[''position'', ''velocity'']"]
  note c = Process_init_validates [of Process empty_store "''trend''" "[''position'', ''velocity'']"]
  from a [THEN conjunct1]
  have "\<exists>e. Process_init Process empty_store ''level'' [''position'', ''position''] = Inl e"
    by simp
  moreover from b [THEN conjunct1]
  have "\<exists>e. Process_init trend_class empty_store ''trend'' [''position'', ''velocity''] = Inl e"
    by (simp add: trend_class_def Process_def)
  moreover from c [THEN conjunct1]
  have "\<not> (\<exists>e. Process_init Process empty_store ''trend'' [''position'', ''velocity''] = Inl e)"
    by (simp add: Process_def)
  then obtain r s' where
    "Process_init Process empty_store ''trend'' [''position'', ''velocity''] = Inr (r, s')"
    by (cases "Process_init Process empty_store ''trend'' [''position'', ''velocity'']") auto
  with c [THEN conjunct2]
  have "\<exists>r s' p. Process_init Process empty_store ''trend'' [''position'', ''velocity''] = Inr (r, s') \<and>
             processes s' r = Some p \<and> state_elements p = [''position'', ''velocity'']"
    by blast
  ultimately show ?thesis by simp
qed

subsection \<open>\<open>Process.for_batch\<close>: the structural error\<close>

lemma mat_measures_Nil: "mat_measures dm = [] \<longleftrightarrow> cells dm = []"
  by (simp add: mat_measures_def)

lemma mat_assign_cells: "mat_assign dm r c v f = Inr dm' \<Longrightarrow> cells dm' \<noteq> []"
  by (auto simp: mat_assign_def split: if_splits)

lemma mat_set_ilink_cells: "mat_set_ilink dm r c il f = Inr dm' \<Longrightarrow> cells dm' = [] \<longleftrightarrow> cells dm = []"
  by (auto simp: mat_set_ilink_def)

lemma for_batch_unfold:
  assumes "processes s self = Some p"
    and "matrices s (measure_mat p) = Some mm" and "matrices s (transition_mat p) = Some tm"
    and "matrices s (variance_multi_mat p) = Some vm"
  shows "for_batch s self g t =
     (if cells mm = [] then
        Some (Inl (TypeError (''The process `'' @ proc_id p @ ''` has no measures.'')))
      else if cells tm = [] then
        Some (Inl (TypeError (''The process `'' @ proc_id p @ ''` has no transitions.'')))
      else
        Some (Inr (next_ref s,
          \<lparr>processes = (processes s)(next_ref s \<mapsto>
             p\<lparr>batch_info := Some (g, t), variance_multi_mat := Suc (next_ref s),
               measure_mat := Suc (Suc (next_ref s)),
               transition_mat := Suc (Suc (Suc (next_ref s)))\<rparr>),
           matrices = (matrices s)
             (Suc (next_ref s) \<mapsto> mat_for_batch vm g t,
              Suc (Suc (next_ref s)) \<mapsto> mat_for_batch mm g t,
              Suc (Suc (Suc (next_ref s))) \<mapsto> mat_for_batch tm g t),
           next_ref = Suc (Suc (Suc (Suc (next_ref s))))\<rparr>)))"
  using assms
  by (simp add: for_batch_def mat_measures_Nil mat_empty_def alloc_process_def alloc_matrix_def
        Let_def)


lemma for_batch_refs:
  assumes "for_batch s self g t = Some r"
  shows "\<exists>p mm tm vm. processes s self = Some p \<and> matrices s (measure_mat p) = Some mm \<and>
           matrices s (transition_mat p) = Some tm \<and> matrices s (variance_multi_mat p) = Some vm"
proof (cases "processes s self")
  case None
  with assms show ?thesis by (simp add: for_batch_def)
next
  case (Some p)
  show ?thesis
  proof (cases "matrices s (measure_mat p)")
    case None
    with assms Some show ?thesis by (simp add: for_batch_def)
  next
    case mm: (Some mm)
    show ?thesis
    proof (cases "matrices s (transition_mat p)")
      case None
      with assms Some mm show ?thesis by (simp add: for_batch_def)
    next
      case tm: (Some tm)
      show ?thesis
      proof (cases "matrices s (variance_multi_mat p)")
        case None
        with assms Some mm tm show ?thesis by (simp add: for_batch_def)
      next
        case (Some vm)
        with \<open>processes s self = Some p\<close> mm tm show ?thesis by simp
      qed
    qed
  qed
qed

lemma for_batch_specializes:
  assumes refs: "processes s self = Some p" "matrices s (measure_mat p) = Some mm"
      "matrices s (transition_mat p) = Some tm" "matrices s (variance_multi_mat p) = Some vm"
    and ok: "cells mm \<noteq> []" "cells tm \<noteq> []"
  shows "\<exists>fb s'. for_batch s self g t = Some (Inr (fb, s')) \<and> batch_specialized s self g t s' fb \<and>
           (store_ok s \<longrightarrow> copy_is_new s self s' fb)"
proof -
  define n where "n = next_ref s"
  define p' where "p' = p\<lparr>batch_info := Some (g, t), variance_multi_mat := Suc n,
               measure_mat := Suc (Suc n), transition_mat := Suc (Suc (Suc n))\<rparr>"
  define s' where "s' = \<lparr>processes = (processes s)(n \<mapsto> p'),
           matrices = (matrices s)
             (Suc n \<mapsto> mat_for_batch vm g t,
              Suc (Suc n) \<mapsto> mat_for_batch mm g t,
              Suc (Suc (Suc n)) \<mapsto> mat_for_batch tm g t),
           next_ref = Suc (Suc (Suc (Suc n)))\<rparr>"
  have fb: "for_batch s self g t = Some (Inr (n, s'))"
    unfolding for_batch_unfold [OF refs] s'_def p'_def n_def using ok by simp
  have pr: "processes s' n = Some p'" by (simp add: s'_def)
  have fields: "proc_id p' = proc_id p" "state_elements p' = state_elements p"
    "batch_info p' = Some (g, t)" "transition_mat p' = Suc (Suc (Suc n))"
    "measure_mat p' = Suc (Suc n)" "variance_multi_mat p' = Suc n"
    by (simp_all add: p'_def)
  have mats: "matrices s' (Suc (Suc (Suc n))) = Some (mat_for_batch tm g t)"
    "matrices s' (Suc (Suc n)) = Some (mat_for_batch mm g t)"
    "matrices s' (Suc n) = Some (mat_for_batch vm g t)"
    by (simp_all add: s'_def)
  have spec: "batch_specialized s self g t s' n"
    unfolding batch_specialized_def
    apply (rule exI [of _ p], rule exI [of _ p'], rule exI [of _ tm], rule exI [of _ mm],
        rule exI [of _ vm])
    using refs pr fields mats by simp
  have fresh: "copy_is_new s self s' n" if "store_ok s"
  proof -
    from that have below: "r < n" if "processes s r \<noteq> None \<or> matrices s r \<noteq> None" for r
      using that unfolding store_ok_def n_def by (auto simp: dom_def)
    from below [of self] refs(1) have "n \<noteq> self" by auto
    moreover from below [of n] have "processes s n = None"
      by (cases "processes s n") simp_all
    moreover have "processes s' r = processes s r" if "processes s r \<noteq> None" for r
      using below [of r] that by (simp add: s'_def)
    moreover have "matrices s' r = matrices s r" if "matrices s r \<noteq> None" for r
      using below [of r] that by (simp add: s'_def)
    moreover have unused: "matrices s r = None" if "n < r" for r
      using below [of r] that by (cases "matrices s r") simp_all
    have "matrices s (Suc n) = None" "matrices s (Suc (Suc n)) = None"
      "matrices s (Suc (Suc (Suc n))) = None"
      by (simp_all add: unused)
    with pr fields
    have "\<exists>p'. processes s' n = Some p' \<and> matrices s (transition_mat p') = None \<and>
           matrices s (measure_mat p') = None \<and> matrices s (variance_multi_mat p') = None"
      by simp
    ultimately show ?thesis unfolding copy_is_new_def by blast
  qed
  show ?thesis
    apply (rule exI [of _ n], rule exI [of _ s'])
    using fb spec fresh by simp
qed

lemma set_measure_store:
  assumes "set_measure s self m e v il f = Some (Inr s1)" and "processes s self = Some p"
  shows "\<exists>mm mm2. matrices s (measure_mat p) = Some mm \<and> cells mm2 \<noteq> [] \<and>
           s1 = s\<lparr>matrices := (matrices s)(measure_mat p \<mapsto> mm2)\<rparr>"
proof -
  from assms obtain mm where mm: "matrices s (measure_mat p) = Some mm"
    by (cases "matrices s (measure_mat p)") (simp_all add: set_measure_def)
  from assms mm obtain mm1 where a: "mat_assign mm m e v f = Inr mm1"
    by (cases "mat_assign mm m e v f") (simp_all add: set_measure_def)
  from assms mm a obtain mm2 where i: "mat_set_ilink mm1 m e il f = Inr mm2"
    by (cases "mat_set_ilink mm1 m e il f") (simp_all add: set_measure_def)
  from assms mm a i have s1: "s1 = s\<lparr>matrices := (matrices s)(measure_mat p \<mapsto> mm2)\<rparr>"
    by (simp add: set_measure_def)
  from mat_assign_cells [OF a] mat_set_ilink_cells [OF i] have "cells mm2 \<noteq> []" by simp
  with s1 mm show ?thesis by blast
qed

lemma set_transition_store:
  assumes "set_transition s self a b v il f = Some (Inr s1)" and "processes s self = Some p"
  shows "\<exists>tm tm2. matrices s (transition_mat p) = Some tm \<and> cells tm2 \<noteq> [] \<and>
           s1 = s\<lparr>matrices := (matrices s)(transition_mat p \<mapsto> tm2)\<rparr>"
proof -
  from assms obtain tm where tm: "matrices s (transition_mat p) = Some tm"
    by (cases "matrices s (transition_mat p)") (simp_all add: set_transition_def)
  from assms tm obtain tm1 where a: "mat_assign tm a b v f = Inr tm1"
    by (cases "mat_assign tm a b v f") (simp_all add: set_transition_def)
  from assms tm a obtain tm2 where i: "mat_set_ilink tm1 a b il f = Inr tm2"
    by (cases "mat_set_ilink tm1 a b il f") (simp_all add: set_transition_def)
  from assms tm a i have s1: "s1 = s\<lparr>matrices := (matrices s)(transition_mat p \<mapsto> tm2)\<rparr>"
    by (simp add: set_transition_def)
  from mat_assign_cells [OF a] mat_set_ilink_cells [OF i] have "cells tm2 \<noteq> []" by simp
  with s1 tm show ?thesis by blast
qed

lemma store_ok_update:
  assumes "store_ok s" and "matrices s r = Some dm"
  shows "store_ok (s\<lparr>matrices := (matrices s)(r \<mapsto> dm')\<rparr>)"
  using assms unfolding store_ok_def by (auto simp: dom_def)

lemma for_batch_after_assignments:
  assumes p: "processes s self = Some p"
    and vm: "matrices s (variance_multi_mat p) = Some vm"
    and m: "set_measure s self m e v il f = Some (Inr s1)"
    and t: "set_transition s1 self a b v' il' f' = Some (Inr s2)"
  shows "\<exists>fb s'. for_batch s2 self g n = Some (Inr (fb, s')) \<and>
           batch_specialized s2 self g n s' fb \<and>
           (store_ok s \<longrightarrow> copy_is_new s2 self s' fb)"
proof -
  from set_measure_store [OF m p] obtain mm mm1 where
    mm: "matrices s (measure_mat p) = Some mm" and c1: "cells mm1 \<noteq> []" and
    s1: "s1 = s\<lparr>matrices := (matrices s)(measure_mat p \<mapsto> mm1)\<rparr>"
    by blast
  from p s1 have p1: "processes s1 self = Some p" by simp
  from set_transition_store [OF t p1] obtain tm tm2 where
    tm: "matrices s1 (transition_mat p) = Some tm" and c2: "cells tm2 \<noteq> []" and
    s2: "s2 = s1\<lparr>matrices := (matrices s1)(transition_mat p \<mapsto> tm2)\<rparr>"
    by blast
  from p1 s2 have p2: "processes s2 self = Some p" by simp
  have t2: "matrices s2 (transition_mat p) = Some tm2" using s2 by simp
  have "\<exists>mm2. matrices s2 (measure_mat p) = Some mm2 \<and> cells mm2 \<noteq> []"
    using s1 s2 c1 c2 by (cases "measure_mat p = transition_mat p") auto
  then obtain mm2 where m2: "matrices s2 (measure_mat p) = Some mm2" "cells mm2 \<noteq> []" by blast
  have "\<exists>vm2. matrices s2 (variance_multi_mat p) = Some vm2"
    using vm s1 s2
    by (cases "variance_multi_mat p = transition_mat p"; cases "variance_multi_mat p = measure_mat p")
       auto
  then obtain vm2 where v2: "matrices s2 (variance_multi_mat p) = Some vm2" by blast
  have ok: "store_ok s2" if "store_ok s"
  proof -
    from store_ok_update [OF that mm] s1 have "store_ok s1" by simp
    from store_ok_update [OF this tm] s2 show ?thesis by simp
  qed
  from for_batch_specializes [OF p2 m2(1) t2 v2 m2(2) c2, of g n] ok show ?thesis by blast
qed

text \<open>
  C5. For a process in the store, \<open>for_batch\<close> raises its \<open>TypeError\<close> exactly when the
  measure matrix has no measures or the transition matrix is empty; otherwise it returns
  a batch-specialized process: one with the id and the state elements of the receiver,
  the batch shape, and the receiver's three matrices made \<open>for_batch\<close> with that shape;
  in a store that satisfies the invariant it is a new object with new matrices, and the
  receiver and its matrices are as they were. After \<open>_set_measure\<close> and then
  \<open>_set_transition\<close> have succeeded on the process, the identical call succeeds in this way.
\<close>

theorem for_batch_structural_error:
  assumes "processes s self = Some p"
    and "matrices s (measure_mat p) = Some mm" and "matrices s (transition_mat p) = Some tm"
    and "matrices s (variance_multi_mat p) = Some vm"
  shows "((\<exists>msg. for_batch s self g t = Some (Inl (TypeError msg)))
            \<longleftrightarrow> mat_measures mm = [] \<or> mat_empty tm) \<and>
         (mat_measures mm \<noteq> [] \<and> \<not> mat_empty tm \<longrightarrow>
            (\<exists>fb s'. for_batch s self g t = Some (Inr (fb, s')) \<and>
                     batch_specialized s self g t s' fb \<and>
                     (store_ok s \<longrightarrow> copy_is_new s self s' fb))) \<and>
         (\<forall>m e v il f a b v' il' f' s1 s2.
            set_measure s self m e v il f = Some (Inr s1) \<longrightarrow>
            set_transition s1 self a b v' il' f' = Some (Inr s2) \<longrightarrow>
            (\<exists>fb s'. for_batch s2 self g t = Some (Inr (fb, s')) \<and>
                     batch_specialized s2 self g t s' fb \<and>
                     (store_ok s \<longrightarrow> copy_is_new s2 self s' fb)))"
proof (intro conjI)
  show "(\<exists>msg. for_batch s self g t = Some (Inl (TypeError msg)))
          \<longleftrightarrow> mat_measures mm = [] \<or> mat_empty tm"
    unfolding for_batch_unfold [OF assms] by (simp add: mat_measures_Nil mat_empty_def)
  show "mat_measures mm \<noteq> [] \<and> \<not> mat_empty tm \<longrightarrow>
            (\<exists>fb s'. for_batch s self g t = Some (Inr (fb, s')) \<and>
                     batch_specialized s self g t s' fb \<and>
                     (store_ok s \<longrightarrow> copy_is_new s self s' fb))"
    using for_batch_specializes [OF assms, of g t] by (simp add: mat_measures_Nil mat_empty_def)
  show "\<forall>m e v il f a b v' il' f' s1 s2.
            set_measure s self m e v il f = Some (Inr s1) \<longrightarrow>
            set_transition s1 self a b v' il' f' = Some (Inr s2) \<longrightarrow>
            (\<exists>fb s'. for_batch s2 self g t = Some (Inr (fb, s')) \<and>
                     batch_specialized s2 self g t s' fb \<and>
                     (store_ok s \<longrightarrow> copy_is_new s2 self s' fb))"
    using for_batch_after_assignments [OF assms(1,4)] by blast
qed

lemma level_init: "Process_init Process empty_store ''level'' [''position''] = Inr (3, level_store)"
  by (simp add: Process_init_unfold validate_def Process_def empty_store_def level_store_def
        level_process_def numeral_eq_Suc)

lemma level_measured:
  "set_measure level_store 3 ''y'' ''position'' (Constant 1) None False = Some (Inr measured_store)"
  by (simp add: set_measure_def level_store_def level_process_def measured_store_def
        measured_matrix_def new_design_matrix_def mat_assign_def mat_set_ilink_def)

lemma level_ready:
  "set_transition measured_store 3 ''position'' ''position'' (Constant 1) None False
     = Some (Inr ready_store)"
  by (simp add: set_transition_def level_store_def level_process_def measured_store_def
        ready_store_def transition_matrix_def new_design_matrix_def mat_assign_def
        mat_set_ilink_def)

lemma level_refs:
  "processes level_store 3 = Some level_process"
  "matrices level_store (measure_mat level_process)
     = Some (new_design_matrix MeasureMatrix None [''position''])"
  "matrices level_store (transition_mat level_process)
     = Some (new_design_matrix TransitionMatrix (Some [''position'']) [''position''])"
  "matrices level_store (variance_multi_mat level_process)
     = Some (new_design_matrix ProcessVarianceMultiplierMatrix (Some [''position'']) [''position''])"
  by (simp_all add: level_store_def level_process_def)

lemma level_ok: "store_ok level_store"
  by (auto simp: store_ok_def level_store_def split: if_splits)

lemma ready_ok: "store_ok ready_store"
  by (auto simp: store_ok_def ready_store_def measured_store_def level_store_def split: if_splits)

lemma ready_refs:
  "processes ready_store 3 = Some level_process"
  "matrices ready_store (measure_mat level_process) = Some measured_matrix"
  "matrices ready_store (transition_mat level_process) = Some transition_matrix"
  "matrices ready_store (variance_multi_mat level_process)
     = Some (new_design_matrix ProcessVarianceMultiplierMatrix (Some [''position'']) [''position''])"
  by (simp_all add: ready_store_def measured_store_def level_store_def level_process_def)

lemma ready_for_batch: "for_batch ready_store 3 2 5 = Some (Inr (4, batch_store))"
  unfolding for_batch_unfold [OF ready_refs]
  by (simp add: measured_matrix_def transition_matrix_def batch_store_def level_process_def
        ready_store_def measured_store_def level_store_def numeral_eq_Suc)

theorem for_batch_structural_error_witness:
  "(\<exists>msg. for_batch level_store 3 2 5 = Some (Inl (TypeError msg))) \<and>
   set_measure level_store 3 ''y'' ''position'' (Constant 1) None False = Some (Inr measured_store) \<and>
   set_transition measured_store 3 ''position'' ''position'' (Constant 1) None False
     = Some (Inr ready_store) \<and>
   for_batch ready_store 3 2 5 = Some (Inr (4, batch_store)) \<and>
   batch_specialized ready_store 3 2 5 batch_store 4 \<and>
   copy_is_new ready_store 3 batch_store 4 \<and>
   processes batch_store 3 = Some level_process \<and>
   (\<exists>p'. processes batch_store 4 = Some p' \<and> batch_info p' = Some (2, 5) \<and>
         matrices batch_store (transition_mat p') = Some (mat_for_batch transition_matrix 2 5) \<and>
         matrices batch_store (measure_mat p') = Some (mat_for_batch measured_matrix 2 5))"
proof -
  note w = for_batch_structural_error [OF level_refs, of 2 5]
  from w [THEN conjunct1]
  have "\<exists>msg. for_batch level_store 3 2 5 = Some (Inl (TypeError msg))"
    by (simp add: mat_measures_def new_design_matrix_def)
  moreover from w [THEN conjunct2, THEN conjunct2] level_measured level_ready level_ok
  have "\<exists>fb s'. for_batch ready_store 3 2 5 = Some (Inr (fb, s')) \<and>
          batch_specialized ready_store 3 2 5 s' fb \<and> copy_is_new ready_store 3 s' fb"
    by blast
  with ready_for_batch
  have b: "batch_specialized ready_store 3 2 5 batch_store 4"
    "copy_is_new ready_store 3 batch_store 4"
    by auto
  moreover from b(2) ready_refs(1) have "processes batch_store 3 = Some level_process"
    unfolding copy_is_new_def by auto
  moreover from b(1) ready_refs
  have "\<exists>p'. processes batch_store 4 = Some p' \<and> batch_info p' = Some (2, 5) \<and>
         matrices batch_store (transition_mat p') = Some (mat_for_batch transition_matrix 2 5) \<and>
         matrices batch_store (measure_mat p') = Some (mat_for_batch measured_matrix 2 5)"
    unfolding batch_specialized_def by (auto simp: level_process_def)
  ultimately show ?thesis using level_measured level_ready ready_for_batch by blast
qed

subsection \<open>\<open>Process.for_batch\<close>: the copy and the original\<close>

text \<open>
  C6. A successful \<open>for_batch(num_groups, num_timesteps)\<close> returns a new object, distinct
  from the receiver and from every process of the store before the call. Every process
  and every matrix of the store before the call is unchanged, in particular the receiver
  (its id, its state elements, its three references) and the three matrices it refers
  to. The new process has the id and the state elements of the receiver (a shallow copy),
  the batch shape as \<open>batch_info\<close>, and refers to three new matrices: the receiver's
  matrices, each made \<open>for_batch\<close> with that shape.
\<close>

theorem for_batch_frame:
  assumes "for_batch s self g t = Some (Inr (fb, s'))" and "store_ok s"
  shows "fb \<noteq> self \<and> processes s fb = None \<and>
         (\<forall>r. processes s r \<noteq> None \<longrightarrow> processes s' r = processes s r) \<and>
         (\<forall>r. matrices s r \<noteq> None \<longrightarrow> matrices s' r = matrices s r) \<and>
         (\<exists>p p' tm mm vm.
            processes s self = Some p \<and> processes s' self = Some p \<and>
            matrices s (transition_mat p) = Some tm \<and> matrices s' (transition_mat p) = Some tm \<and>
            matrices s (measure_mat p) = Some mm \<and> matrices s' (measure_mat p) = Some mm \<and>
            matrices s (variance_multi_mat p) = Some vm \<and>
            matrices s' (variance_multi_mat p) = Some vm \<and>
            processes s' fb = Some p' \<and>
            proc_id p' = proc_id p \<and> state_elements p' = state_elements p \<and>
            batch_info p' = Some (g, t) \<and>
            matrices s (transition_mat p') = None \<and>
            matrices s' (transition_mat p') = Some (mat_for_batch tm g t) \<and>
            matrices s (measure_mat p') = None \<and>
            matrices s' (measure_mat p') = Some (mat_for_batch mm g t) \<and>
            matrices s (variance_multi_mat p') = None \<and>
            matrices s' (variance_multi_mat p') = Some (mat_for_batch vm g t))"
proof -
  from for_batch_refs [OF assms(1)] obtain p mm tm vm where
    refs: "processes s self = Some p" "matrices s (measure_mat p) = Some mm"
      "matrices s (transition_mat p) = Some tm" "matrices s (variance_multi_mat p) = Some vm"
    by blast
  let ?n = "next_ref s"
  from assms(1) have ok: "cells mm \<noteq> []" "cells tm \<noteq> []"
    unfolding for_batch_unfold [OF refs] by (auto split: if_splits)
  with assms(1) have fb: "fb = ?n" and
    s': "s' = \<lparr>processes = (processes s)(?n \<mapsto>
             p\<lparr>batch_info := Some (g, t), variance_multi_mat := Suc ?n,
               measure_mat := Suc (Suc ?n), transition_mat := Suc (Suc (Suc ?n))\<rparr>),
           matrices = (matrices s)
             (Suc ?n \<mapsto> mat_for_batch vm g t,
              Suc (Suc ?n) \<mapsto> mat_for_batch mm g t,
              Suc (Suc (Suc ?n)) \<mapsto> mat_for_batch tm g t),
           next_ref = Suc (Suc (Suc (Suc ?n)))\<rparr>"
    unfolding for_batch_unfold [OF refs] by auto
  have old_p: "r < ?n" if "processes s r \<noteq> None" for r
    using that assms(2) unfolding store_ok_def by (auto simp: dom_def)
  have old_m: "r < ?n" if "matrices s r \<noteq> None" for r
    using that assms(2) unfolding store_ok_def by (auto simp: dom_def)
  have fresh_p: "processes s r = None" if "?n \<le> r" for r
    using old_p [of r] that by (cases "processes s r") auto
  have fresh_m: "matrices s r = None" if "?n \<le> r" for r
    using old_m [of r] that by (cases "matrices s r") auto
  have self: "self < ?n" using old_p [of self] refs(1) by simp
  have t: "transition_mat p < ?n" using old_m [of "transition_mat p"] refs(3) by simp
  have m: "measure_mat p < ?n" using old_m [of "measure_mat p"] refs(2) by simp
  have v: "variance_multi_mat p < ?n" using old_m [of "variance_multi_mat p"] refs(4) by simp
  have 1: "fb \<noteq> self" using fb self by simp
  have 2: "processes s fb = None" using fb fresh_p by simp
  have keep_p: "processes s' r = processes s r" if "processes s r \<noteq> None" for r
  proof -
    from old_p [OF that] have "r \<noteq> ?n" by simp
    then show ?thesis by (simp add: s')
  qed
  have keep_m: "matrices s' r = matrices s r" if "matrices s r \<noteq> None" for r
  proof -
    from old_m [OF that] have "r \<noteq> Suc ?n" "r \<noteq> Suc (Suc ?n)" "r \<noteq> Suc (Suc (Suc ?n))"
      by simp_all
    then show ?thesis by (simp add: s')
  qed
  have 3: "\<forall>r. processes s r \<noteq> None \<longrightarrow> processes s' r = processes s r"
    using keep_p by blast
  have 4: "\<forall>r. matrices s r \<noteq> None \<longrightarrow> matrices s' r = matrices s r"
    using keep_m by blast
  let ?p' = "p\<lparr>batch_info := Some (g, t), variance_multi_mat := Suc ?n,
               measure_mat := Suc (Suc ?n), transition_mat := Suc (Suc (Suc ?n))\<rparr>"
  have 5: "processes s' fb = Some ?p'" using s' fb by simp
  have 6: "processes s' self = Some p" using 3 refs(1) by simp
  have 7: "matrices s' (transition_mat p) = Some tm" "matrices s' (measure_mat p) = Some mm"
    "matrices s' (variance_multi_mat p) = Some vm"
    using 4 refs by simp_all
  have 8: "matrices s (transition_mat ?p') = None" "matrices s (measure_mat ?p') = None"
    "matrices s (variance_multi_mat ?p') = None"
    using fresh_m by simp_all
  have 9: "matrices s' (transition_mat ?p') = Some (mat_for_batch tm g t)"
    "matrices s' (measure_mat ?p') = Some (mat_for_batch mm g t)"
    "matrices s' (variance_multi_mat ?p') = Some (mat_for_batch vm g t)"
    using s' by simp_all
  have 10: "proc_id ?p' = proc_id p" "state_elements ?p' = state_elements p"
    "batch_info ?p' = Some (g, t)"
    by simp_all
  from refs 5 6 7 8 9 10
  have "\<exists>p p' tm mm vm.
            processes s self = Some p \<and> processes s' self = Some p \<and>
            matrices s (transition_mat p) = Some tm \<and> matrices s' (transition_mat p) = Some tm \<and>
            matrices s (measure_mat p) = Some mm \<and> matrices s' (measure_mat p) = Some mm \<and>
            matrices s (variance_multi_mat p) = Some vm \<and>
            matrices s' (variance_multi_mat p) = Some vm \<and>
            processes s' fb = Some p' \<and>
            proc_id p' = proc_id p \<and> state_elements p' = state_elements p \<and>
            batch_info p' = Some (g, t) \<and>
            matrices s (transition_mat p') = None \<and>
            matrices s' (transition_mat p') = Some (mat_for_batch tm g t) \<and>
            matrices s (measure_mat p') = None \<and>
            matrices s' (measure_mat p') = Some (mat_for_batch mm g t) \<and>
            matrices s (variance_multi_mat p') = None \<and>
            matrices s' (variance_multi_mat p') = Some (mat_for_batch vm g t)"
    by (intro exI [of _ p] exI [of _ ?p'] exI [of _ tm] exI [of _ mm] exI [of _ vm]) simp
  with 1 2 3 4 show ?thesis by blast
qed

theorem for_batch_frame_witness:
  "store_ok ready_store \<and> for_batch ready_store 3 2 5 = Some (Inr (4, batch_store)) \<and>
   processes batch_store 3 = Some level_process \<and>
   matrices batch_store 0 = Some transition_matrix \<and>
   matrices batch_store 1 = Some measured_matrix \<and>
   (\<exists>p'. processes batch_store 4 = Some p' \<and> proc_id p' = ''level'' \<and>
         state_elements p' = [''position''] \<and> batch_info p' = Some (2, 5) \<and>
         matrices batch_store (transition_mat p') = Some (mat_for_batch transition_matrix 2 5) \<and>
         matrices batch_store (measure_mat p') = Some (mat_for_batch measured_matrix 2 5))"
proof -
  note w = for_batch_frame [OF ready_for_batch ready_ok]
  from w ready_refs(1) have "processes batch_store 3 = Some level_process" by simp
  moreover from w ready_refs(1,2,3)
  have "matrices batch_store 0 = Some transition_matrix \<and>
        matrices batch_store 1 = Some measured_matrix"
    by (auto simp: level_process_def)
  moreover from w ready_refs(1,2,3)
  have "\<exists>p'. processes batch_store 4 = Some p' \<and> proc_id p' = ''level'' \<and>
         state_elements p' = [''position''] \<and> batch_info p' = Some (2, 5) \<and>
         matrices batch_store (transition_mat p') = Some (mat_for_batch transition_matrix 2 5) \<and>
         matrices batch_store (measure_mat p') = Some (mat_for_batch measured_matrix 2 5)"
    by (auto simp: level_process_def)
  ultimately show ?thesis using ready_ok ready_for_batch by blast
qed

subsection \<open>\<open>Process.__init_subclass__\<close>: the signatures of the overrides\<close>

text \<open>
  C9, amended. The checks of \<open>__init_subclass__\<close> run only for a subclass that does not
  override \<open>batch_kwargs\<close>; a subclass that overrides it is defined without error. For a
  subclass that does not override \<open>batch_kwargs\<close> and overrides both \<open>for_batch\<close> and
  \<open>initial_state_means_for_batch\<close>, the definition raises a \<open>TypeError\<close> exactly when one of
  the two overrides has a parameter named \<open>kwargs\<close> (as a catch-all \<open>**kwargs\<close> is) or their
  keyword-argument sets, without \<open>self\<close>, \<open>num_groups\<close>, \<open>num_timesteps\<close> and \<open>parameters\<close>,
  differ.
\<close>

theorem init_subclass_signatures:
  "(overrides_batch_kwargs cls \<longrightarrow> init_subclass cls = Inr ()) \<and>
   (\<not> overrides_batch_kwargs cls \<and> overrides_for_batch cls \<and> overrides_init_mean cls \<longrightarrow>
      ((\<exists>msg. init_subclass cls = Inl (TypeError msg)) \<longleftrightarrow>
         ''kwargs'' \<in> set (map fst (parameters (cls_for_batch cls))) \<or>
         ''kwargs'' \<in> set (map fst (parameters (cls_initial_state_means_for_batch cls))) \<or>
         set (batch_kwargs (cls_for_batch cls))
           \<noteq> set (batch_kwargs (cls_initial_state_means_for_batch cls))))"
proof (intro conjI impI)
  assume "overrides_batch_kwargs cls"
  then show "init_subclass cls = Inr ()" by (simp add: init_subclass_def)
next
  assume "\<not> overrides_batch_kwargs cls \<and> overrides_for_batch cls \<and> overrides_init_mean cls"
  then show "(\<exists>msg. init_subclass cls = Inl (TypeError msg)) \<longleftrightarrow>
         ''kwargs'' \<in> set (map fst (parameters (cls_for_batch cls))) \<or>
         ''kwargs'' \<in> set (map fst (parameters (cls_initial_state_means_for_batch cls))) \<or>
         set (batch_kwargs (cls_for_batch cls))
           \<noteq> set (batch_kwargs (cls_initial_state_means_for_batch cls))"
    by (auto simp: init_subclass_def Let_def batch_kwargs_def excluded_def)
qed

text \<open>
  The claim without the condition on \<open>batch_kwargs\<close> fails: the class below overrides both
  methods with different keyword arguments, and is defined without error.
\<close>

theorem init_subclass_signatures_counterexample:
  "overrides_for_batch season_class_own_kwargs \<and> overrides_init_mean season_class_own_kwargs \<and>
   batch_kwargs (cls_for_batch season_class_own_kwargs) = [''start_datetimes''] \<and>
   batch_kwargs (cls_initial_state_means_for_batch season_class_own_kwargs) = [''season_start''] \<and>
   set (batch_kwargs (cls_for_batch season_class_own_kwargs))
     \<noteq> set (batch_kwargs (cls_initial_state_means_for_batch season_class_own_kwargs)) \<and>
   init_subclass season_class_own_kwargs = Inr ()"
  by code_simp

theorem init_subclass_signatures_witness:
  "\<not> overrides_batch_kwargs season_class \<and> overrides_for_batch season_class \<and>
   overrides_init_mean season_class \<and>
   (\<exists>msg. init_subclass season_class = Inl (TypeError msg)) \<and>
   overrides_batch_kwargs season_class_own_kwargs \<and>
   init_subclass season_class_own_kwargs = Inr ()"
proof -
  have o: "\<not> overrides_batch_kwargs season_class" "overrides_for_batch season_class"
    "overrides_init_mean season_class" "overrides_batch_kwargs season_class_own_kwargs"
    by code_simp+
  have d: "set (batch_kwargs (cls_for_batch season_class))
             \<noteq> set (batch_kwargs (cls_initial_state_means_for_batch season_class))"
    by code_simp
  from init_subclass_signatures [of season_class, THEN conjunct2] o d
  have "\<exists>msg. init_subclass season_class = Inl (TypeError msg)" by blast
  moreover from init_subclass_signatures [of season_class_own_kwargs, THEN conjunct1] o(4)
  have "init_subclass season_class_own_kwargs = Inr ()" by blast
  ultimately show ?thesis using o by blast
qed

end
